theory Spec2Isabelle
  imports Main
begin

section \<open>Platform functions used by the backend\<close>

text \<open>
  JavaScript strings are modelled as \<^typ>\<open>string\<close>; each character stands for one
  code unit below 256. A JSON object is a map from its own property names to values;
  names inherited from the object prototype are never email-shaped and are outside the
  model.
\<close>

text \<open>
  \<^verbatim>\<open>Array.prototype.slice(start, end)\<close> for integer arguments: a negative index
  counts from the end, both indices are clamped to the array, and \<^verbatim>\<open>-0\<close> is
  \<^verbatim>\<open>0\<close>. A missing \<^verbatim>\<open>end\<close> is \<^term>\<open>None\<close>.
\<close>

definition slice :: "int \<Rightarrow> int option \<Rightarrow> 'a list \<Rightarrow> 'a list" where
  "slice start fin xs =
     (let len = int (length xs);
          k = (if start < 0 then max (len + start) 0 else min start len);
          final = (case fin of None \<Rightarrow> len
                   | Some e \<Rightarrow> if e < 0 then max (len + e) 0 else min e len)
      in take (nat (final - k)) (drop (nat k) xs))"

text \<open>\<^verbatim>\<open>Array.prototype.findIndex\<close>: the first index whose element satisfies
  the predicate, or \<^verbatim>\<open>-1\<close>.\<close>

fun findIndex :: "('a \<Rightarrow> bool) \<Rightarrow> 'a list \<Rightarrow> int" where
  "findIndex P [] = - 1"
| "findIndex P (x # xs) =
     (if P x then 0
      else (let i = findIndex P xs in if i = - 1 then - 1 else i + 1))"

text \<open>\<^verbatim>\<open>xs || []\<close> on a property that may be missing.\<close>

definition orEmpty :: "'a list option \<Rightarrow> 'a list" where
  "orEmpty xs = (case xs of None \<Rightarrow> [] | Some ys \<Rightarrow> ys)"

section \<open>Configuration (config/config.js)\<close>

record config =
  maxCitiesPerUser :: int
  maxAttractionsPerCity :: int
  maxRestaurantsPerCity :: int

text \<open>The \<^verbatim>\<open>defaults\<close> block that \<^verbatim>\<open>loadConfig\<close> falls back to.\<close>

definition defaults :: config where
  "defaults = \<lparr>maxCitiesPerUser = 10, maxAttractionsPerCity = 5, maxRestaurantsPerCity = 5\<rparr>"

section \<open>City store (src/city.js)\<close>

text \<open>A city object: its name and its two arrays, either of which may be missing.
  Any other property of a city object is carried along unchanged by every handler and
  is left out.\<close>

record city =
  name :: string
  attractions :: "string list option"
  restaurants :: "string list option"

text \<open>
  The data file holds one JSON object: a city array under each username, the
  \<^verbatim>\<open>latest\<close> snapshot under the key \<^verbatim>\<open>latest\<close>, possibly \<^verbatim>\<open>null\<close>.
  The file is represented by the JSON value its text encodes (\<^verbatim>\<open>JSON.parse\<close> of
  \<^verbatim>\<open>JSON.stringify\<close>), \<^term>\<open>None\<close> when the file does not exist. The text
  itself, and the value that it stands for, are the subject of the section on the data
  file as text.
\<close>

datatype jsonval = JNull | JCities "city list"

type_synonym cityData = "string \<Rightarrow> jsonval option"

type_synonym dataFile = "cityData option"

definition readData :: "dataFile \<Rightarrow> cityData" where
  "readData file =
     (case file of
        None \<Rightarrow> Map.empty(''cities'' \<mapsto> JCities [], ''latest'' \<mapsto> JNull)
      | Some data \<Rightarrow> data)"

definition writeData :: "cityData \<Rightarrow> dataFile \<Rightarrow> dataFile" where
  "writeData data file = Some data"

text \<open>\<^verbatim>\<open>data[key]\<close> where only its truthiness and its array are used: a missing
  key and \<^verbatim>\<open>null\<close> are both falsy, every array is truthy.\<close>

definition entry :: "cityData \<Rightarrow> string \<Rightarrow> city list option" where
  "entry data key = (case data key of Some (JCities cs) \<Rightarrow> Some cs | _ \<Rightarrow> None)"

text \<open>The callback of \<^verbatim>\<open>map\<close> in \<^verbatim>\<open>getUserCities\<close>.\<close>

definition lastItems :: "config \<Rightarrow> city \<Rightarrow> city" where
  "lastItems cfg c =
     c\<lparr>attractions := Some (slice (- maxAttractionsPerCity cfg) None (orEmpty (attractions c))),
       restaurants := Some (slice (- maxRestaurantsPerCity cfg) None (orEmpty (restaurants c)))\<rparr>"

text \<open>\<^verbatim>\<open>username && data[username]\<close>: falsy without a session user, for the empty
  username, and when the user has no array in the data.\<close>

definition userEntry :: "cityData \<Rightarrow> string option \<Rightarrow> city list option" where
  "userEntry data username =
     (case username of
        None \<Rightarrow> None
      | Some u \<Rightarrow> if u = [] then None else entry data u)"

definition getUserCities :: "config \<Rightarrow> dataFile \<Rightarrow> string option \<Rightarrow> city list" where
  "getUserCities cfg file username =
     (let data = readData file;
          cities =
            (case userEntry data username of
               Some cs \<Rightarrow> cs
             | None \<Rightarrow> (case entry data ''latest'' of Some cs \<Rightarrow> cs | None \<Rightarrow> []))
      in map (lastItems cfg) (slice (- maxCitiesPerUser cfg) None cities))"

subsection \<open>Responses\<close>

text \<open>One constructor for each error response of the two routers, named as in the
  specification; \<open>status\<close> is the HTTP status the handler sets.\<close>

datatype error =
    NotAuthenticated          \<comment> \<open>401 Login required\<close>
  | MissingName               \<comment> \<open>400 City name required\<close>
  | CityLimitReached int      \<comment> \<open>400 City limit (n) reached\<close>
  | NoCitiesForUser           \<comment> \<open>404 No cities found\<close>
  | MissingAttraction         \<comment> \<open>400 Attraction required\<close>
  | MissingRestaurant         \<comment> \<open>400 Restaurant required\<close>
  | CityNotFound              \<comment> \<open>404 City not found\<close>
  | AttractionLimitReached int \<comment> \<open>400 Attraction limit (n) reached\<close>
  | RestaurantLimitReached int \<comment> \<open>400 Restaurant limit (n) reached\<close>
  | MissingCredentials        \<comment> \<open>400 Username and password required\<close>
  | InvalidEmail              \<comment> \<open>400 A valid email is required\<close>
  | UsernameTaken             \<comment> \<open>409 User already exists\<close>
  | InvalidCredentials        \<comment> \<open>401 Invalid credentials\<close>

fun status :: "error \<Rightarrow> nat" where
  "status NotAuthenticated = 401"
| "status MissingName = 400"
| "status (CityLimitReached n) = 400"
| "status NoCitiesForUser = 404"
| "status MissingAttraction = 400"
| "status MissingRestaurant = 400"
| "status CityNotFound = 404"
| "status (AttractionLimitReached n) = 400"
| "status (RestaurantLimitReached n) = 400"
| "status MissingCredentials = 400"
| "status InvalidEmail = 400"
| "status UsernameTaken = 409"
| "status InvalidCredentials = 401"

subsection \<open>Route handlers\<close>

text \<open>
  Every handler takes the session's username (\<^term>\<open>None\<close> without a session user),
  its request fields and the data file, and returns its response with the data file it
  leaves behind. An error response is sent before any write.
\<close>

text \<open>\<^verbatim>\<open>GET /\<close>\<close>

definition listCities :: "config \<Rightarrow> string option \<Rightarrow> dataFile \<Rightarrow> (error + city list) \<times> dataFile" where
  "listCities cfg username file = (Inr (getUserCities cfg file username), file)"

text \<open>The two assignments that cut the incoming city's arrays in \<^verbatim>\<open>POST /\<close>.\<close>

definition firstItems :: "config \<Rightarrow> city \<Rightarrow> city" where
  "firstItems cfg c =
     c\<lparr>attractions := Some (slice 0 (Some (maxAttractionsPerCity cfg)) (orEmpty (attractions c))),
       restaurants := Some (slice 0 (Some (maxRestaurantsPerCity cfg)) (orEmpty (restaurants c)))\<rparr>"

text \<open>\<^verbatim>\<open>POST /\<close> with the body's \<^verbatim>\<open>city\<close>.\<close>

definition addOrUpdateCity ::
  "config \<Rightarrow> string option \<Rightarrow> city option \<Rightarrow> dataFile \<Rightarrow> (error + city) \<times> dataFile" where
  "addOrUpdateCity cfg username body file =
     (case username of
        None \<Rightarrow> (Inl NotAuthenticated, file)
      | Some u \<Rightarrow>
          if u = [] then (Inl NotAuthenticated, file)
          else (case body of
            None \<Rightarrow> (Inl MissingName, file)
          | Some c \<Rightarrow>
              if name c = [] then (Inl MissingName, file)
              else
                (let data = readData file;
                     cs = orEmpty (entry data u);
                     idx = findIndex (\<lambda>x. name x = name c) cs;
                     maxCities = maxCitiesPerUser cfg
                 in if idx = - 1 \<and> int (length cs) \<ge> maxCities
                    then (Inl (CityLimitReached maxCities), file)
                    else
                      (let c' = firstItems cfg c;
                           cs' = (if idx \<ge> 0 then cs[nat idx := c'] else cs @ [c']);
                           data' = data(u \<mapsto> JCities cs', ''latest'' \<mapsto> JCities cs')
                       in (Inr c', writeData data' file)))))"

text \<open>\<^verbatim>\<open>DELETE /:cityName\<close>\<close>

definition deleteCity ::
  "string option \<Rightarrow> string \<Rightarrow> dataFile \<Rightarrow> (error + string) \<times> dataFile" where
  "deleteCity username cityName file =
     (case username of
        None \<Rightarrow> (Inl NotAuthenticated, file)
      | Some u \<Rightarrow>
          if u = [] then (Inl NotAuthenticated, file)
          else
            (let data = readData file
             in case entry data u of
                  None \<Rightarrow> (Inl NoCitiesForUser, file)
                | Some cs \<Rightarrow>
                    (let cs' = filter (\<lambda>c. name c \<noteq> cityName) cs;
                         data' = data(u \<mapsto> JCities cs', ''latest'' \<mapsto> JCities cs')
                     in (Inr ''City deleted'', writeData data' file))))"

text \<open>\<^verbatim>\<open>POST /:cityName/attractions\<close> with the body's \<^verbatim>\<open>attraction\<close>. The city
  found is an element of the user's array and is changed in place, so the array holds
  the changed city at the index of the first match.\<close>

definition addAttraction ::
  "config \<Rightarrow> string option \<Rightarrow> string \<Rightarrow> string option \<Rightarrow> dataFile \<Rightarrow> (error + city) \<times> dataFile" where
  "addAttraction cfg username cityName attraction file =
     (case username of
        None \<Rightarrow> (Inl NotAuthenticated, file)
      | Some u \<Rightarrow>
          if u = [] then (Inl NotAuthenticated, file)
          else (case attraction of
            None \<Rightarrow> (Inl MissingAttraction, file)
          | Some a \<Rightarrow>
              if a = [] then (Inl MissingAttraction, file)
              else
                (let data = readData file;
                     cs = orEmpty (entry data u)
                 in case find (\<lambda>c. name c = cityName) cs of
                      None \<Rightarrow> (Inl CityNotFound, file)
                    | Some c \<Rightarrow>
                        (let as = orEmpty (attractions c);
                             maxAttractions = maxAttractionsPerCity cfg
                         in if int (length as) \<ge> maxAttractions
                            then (Inl (AttractionLimitReached maxAttractions), file)
                            else
                              (let idx = findIndex (\<lambda>x. x = a) as;
                                   as' = (if idx = - 1 then as @ [a] else as);
                                   c' = c\<lparr>attractions := Some as'\<rparr>;
                                   cs' = cs[nat (findIndex (\<lambda>c. name c = cityName) cs) := c'];
                                   data' = data(u \<mapsto> JCities cs', ''latest'' \<mapsto> JCities cs')
                               in (Inr c', writeData data' file))))))"

text \<open>\<^verbatim>\<open>DELETE /:cityName/attractions/:attraction\<close>\<close>

definition deleteAttraction ::
  "string option \<Rightarrow> string \<Rightarrow> string \<Rightarrow> dataFile \<Rightarrow> (error + city) \<times> dataFile" where
  "deleteAttraction username cityName attraction file =
     (case username of
        None \<Rightarrow> (Inl NotAuthenticated, file)
      | Some u \<Rightarrow>
          if u = [] then (Inl NotAuthenticated, file)
          else
            (let data = readData file;
                 cs = orEmpty (entry data u)
             in case find (\<lambda>c. name c = cityName) cs of
                  None \<Rightarrow> (Inl CityNotFound, file)
                | Some c \<Rightarrow>
                    (let c' = c\<lparr>attractions :=
                                  Some (filter (\<lambda>a. a \<noteq> attraction) (orEmpty (attractions c)))\<rparr>;
                         cs' = cs[nat (findIndex (\<lambda>c. name c = cityName) cs) := c'];
                         data' = data(u \<mapsto> JCities cs', ''latest'' \<mapsto> JCities cs')
                     in (Inr c', writeData data' file))))"

text \<open>\<^verbatim>\<open>POST /:cityName/restaurants\<close> with the body's \<^verbatim>\<open>restaurant\<close>.\<close>

definition addRestaurant ::
  "config \<Rightarrow> string option \<Rightarrow> string \<Rightarrow> string option \<Rightarrow> dataFile \<Rightarrow> (error + city) \<times> dataFile" where
  "addRestaurant cfg username cityName restaurant file =
     (case username of
        None \<Rightarrow> (Inl NotAuthenticated, file)
      | Some u \<Rightarrow>
          if u = [] then (Inl NotAuthenticated, file)
          else (case restaurant of
            None \<Rightarrow> (Inl MissingRestaurant, file)
          | Some r \<Rightarrow>
              if r = [] then (Inl MissingRestaurant, file)
              else
                (let data = readData file;
                     cs = orEmpty (entry data u)
                 in case find (\<lambda>c. name c = cityName) cs of
                      None \<Rightarrow> (Inl CityNotFound, file)
                    | Some c \<Rightarrow>
                        (let rs = orEmpty (restaurants c);
                             maxRestaurants = maxRestaurantsPerCity cfg
                         in if int (length rs) \<ge> maxRestaurants
                            then (Inl (RestaurantLimitReached maxRestaurants), file)
                            else
                              (let idx = findIndex (\<lambda>x. x = r) rs;
                                   rs' = (if idx = - 1 then rs @ [r] else rs);
                                   c' = c\<lparr>restaurants := Some rs'\<rparr>;
                                   cs' = cs[nat (findIndex (\<lambda>c. name c = cityName) cs) := c'];
                                   data' = data(u \<mapsto> JCities cs', ''latest'' \<mapsto> JCities cs')
                               in (Inr c', writeData data' file))))))"

text \<open>\<^verbatim>\<open>DELETE /:cityName/restaurants/:restaurant\<close>\<close>

definition deleteRestaurant ::
  "string option \<Rightarrow> string \<Rightarrow> string \<Rightarrow> dataFile \<Rightarrow> (error + city) \<times> dataFile" where
  "deleteRestaurant username cityName restaurant file =
     (case username of
        None \<Rightarrow> (Inl NotAuthenticated, file)
      | Some u \<Rightarrow>
          if u = [] then (Inl NotAuthenticated, file)
          else
            (let data = readData file;
                 cs = orEmpty (entry data u)
             in case find (\<lambda>c. name c = cityName) cs of
                  None \<Rightarrow> (Inl CityNotFound, file)
                | Some c \<Rightarrow>
                    (let c' = c\<lparr>restaurants :=
                                  Some (filter (\<lambda>r. r \<noteq> restaurant) (orEmpty (restaurants c)))\<rparr>;
                         cs' = cs[nat (findIndex (\<lambda>c. name c = cityName) cs) := c'];
                         data' = data(u \<mapsto> JCities cs', ''latest'' \<mapsto> JCities cs')
                     in (Inr c', writeData data' file))))"

subsection \<open>The router\<close>

text \<open>The seven routes of the city router, each request carrying the route parameters
  and body fields its handler reads.\<close>

datatype request =
    GetCities
  | PostCity "city option"
  | DeleteCity string
  | PostAttraction string "string option"
  | DeleteAttraction string string
  | PostRestaurant string "string option"
  | DeleteRestaurant string string

datatype reply = CityList "city list" | CityReply city | Message string

definition respond :: "('a \<Rightarrow> reply) \<Rightarrow> (error + 'a) \<times> dataFile \<Rightarrow> (error + reply) \<times> dataFile" where
  "respond f r = (map_sum id f (fst r), snd r)"

fun router :: "config \<Rightarrow> string option \<Rightarrow> request \<Rightarrow> dataFile \<Rightarrow> (error + reply) \<times> dataFile" where
  "router cfg username GetCities file = respond CityList (listCities cfg username file)"
| "router cfg username (PostCity body) file =
     respond CityReply (addOrUpdateCity cfg username body file)"
| "router cfg username (DeleteCity cityName) file =
     respond Message (deleteCity username cityName file)"
| "router cfg username (PostAttraction cityName attraction) file =
     respond CityReply (addAttraction cfg username cityName attraction file)"
| "router cfg username (DeleteAttraction cityName attraction) file =
     respond CityReply (deleteAttraction username cityName attraction file)"
| "router cfg username (PostRestaurant cityName restaurant) file =
     respond CityReply (addRestaurant cfg username cityName restaurant file)"
| "router cfg username (DeleteRestaurant cityName restaurant) file =
     respond CityReply (deleteRestaurant username cityName restaurant file)"

section \<open>User store (src/user.js)\<close>

subsection \<open>The email pattern\<close>

text \<open>Regular expressions over characters, matched by derivatives; a character class
  is its membership test.\<close>

datatype regex =
    Nothing
  | Eps
  | Class "char \<Rightarrow> bool"
  | Alt regex regex
  | Seq regex regex
  | Star regex

fun nullable :: "regex \<Rightarrow> bool" where
  "nullable Nothing = False"
| "nullable Eps = True"
| "nullable (Class P) = False"
| "nullable (Alt r s) = (nullable r \<or> nullable s)"
| "nullable (Seq r s) = (nullable r \<and> nullable s)"
| "nullable (Star r) = True"

fun deriv :: "char \<Rightarrow> regex \<Rightarrow> regex" where
  "deriv c Nothing = Nothing"
| "deriv c Eps = Nothing"
| "deriv c (Class P) = (if P c then Eps else Nothing)"
| "deriv c (Alt r s) = Alt (deriv c r) (deriv c s)"
| "deriv c (Seq r s) =
     (if nullable r then Alt (Seq (deriv c r) s) (deriv c s) else Seq (deriv c r) s)"
| "deriv c (Star r) = Seq (deriv c r) (Star r)"

text \<open>\<^verbatim>\<open>test\<close> of a pattern anchored at both ends: the whole string matches.\<close>

fun test :: "regex \<Rightarrow> string \<Rightarrow> bool" where
  "test r [] = nullable r"
| "test r (c # cs) = test (deriv c r) cs"

definition oneOrMore :: "regex \<Rightarrow> regex" where
  "oneOrMore r = Seq r (Star r)"

text \<open>The class \<^verbatim>\<open>\s\<close> among the code units below 256: tab, line feed, vertical
  tab, form feed, carriage return, space and no-break space.\<close>

definition whitespace :: "char \<Rightarrow> bool" where
  "whitespace c =
     (c \<in> {CHR 0x09, CHR 0x0A, CHR 0x0B, CHR 0x0C, CHR 0x0D, CHR 0x20, CHR 0xA0})"

text \<open>\<^verbatim>\<open>[^@\s]\<close>\<close>

definition notAtOrSpace :: "char \<Rightarrow> bool" where
  "notAtOrSpace c = (c \<noteq> CHR ''@'' \<and> \<not> whitespace c)"

text \<open>\<^verbatim>\<open>/^[^@\s]+@[^@\s]+\.[^@\s]+$/\<close>\<close>

definition emailPattern :: regex where
  "emailPattern =
     Seq (oneOrMore (Class notAtOrSpace))
       (Seq (Class (\<lambda>c. c = CHR ''@''))
          (Seq (oneOrMore (Class notAtOrSpace))
             (Seq (Class (\<lambda>c. c = CHR ''.''))
                (oneOrMore (Class notAtOrSpace)))))"

definition isValidEmail :: "string \<Rightarrow> bool" where
  "isValidEmail email = test emailPattern email"

subsection \<open>Users, the users file and the session\<close>

record user =
  username :: string
  password :: string

text \<open>The users file is represented by the array its JSON text encodes, \<^term>\<open>None\<close>
  when the file does not exist.\<close>

type_synonym usersFile = "user list option"

definition readUsers :: "usersFile \<Rightarrow> user list" where
  "readUsers file = (case file of None \<Rightarrow> [] | Some users \<Rightarrow> users)"

definition writeUsers :: "user list \<Rightarrow> usersFile \<Rightarrow> usersFile" where
  "writeUsers users file = Some users"

text \<open>The state the user routes act on: the users file and the username held by the
  request's session (\<^term>\<open>None\<close> without a session user).\<close>

record userState =
  users :: usersFile
  session :: "string option"

text \<open>A body field that is not sent is \<^term>\<open>None\<close>; a pattern tests the text of
  its argument, which is \<^verbatim>\<open>undefined\<close> for a missing field.\<close>

definition toText :: "string option \<Rightarrow> string" where
  "toText s = (case s of None \<Rightarrow> ''undefined'' | Some t \<Rightarrow> t)"

definition falsy :: "string option \<Rightarrow> bool" where
  "falsy s = (case s of None \<Rightarrow> True | Some t \<Rightarrow> t = [])"

text \<open>\<^verbatim>\<open>POST /register\<close>\<close>

definition register ::
  "string option \<Rightarrow> string option \<Rightarrow> userState \<Rightarrow> (error + string) \<times> userState" where
  "register uname pword st =
     (if falsy uname \<or> falsy pword then (Inl MissingCredentials, st)
      else if \<not> isValidEmail (toText uname) then (Inl InvalidEmail, st)
      else
        (let us = readUsers (users st)
         in if find (\<lambda>u. username u = toText uname) us \<noteq> None
            then (Inl UsernameTaken, st)
            else
              (let us' = us @ [\<lparr>username = toText uname, password = toText pword\<rparr>]
               in (Inr (toText uname),
                   st\<lparr>users := writeUsers us' (users st), session := Some (toText uname)\<rparr>))))"

text \<open>\<^verbatim>\<open>POST /login\<close>\<close>

definition login ::
  "string option \<Rightarrow> string option \<Rightarrow> userState \<Rightarrow> (error + string) \<times> userState" where
  "login uname pword st =
     (if \<not> isValidEmail (toText uname) then (Inl InvalidEmail, st)
      else
        (let us = readUsers (users st)
         in case find (\<lambda>u. Some (username u) = uname \<and> Some (password u) = pword) us of
              None \<Rightarrow> (Inl InvalidCredentials, st)
            | Some u \<Rightarrow> (Inr (toText uname), st\<lparr>session := Some (toText uname)\<rparr>)))"

section \<open>The data file as text\<close>

text \<open>
  \<^verbatim>\<open>writeData\<close> writes \<^verbatim>\<open>JSON.stringify(data, null, 2)\<close> and \<^verbatim>\<open>readData\<close>
  returns \<^verbatim>\<open>JSON.parse\<close> of the file's text. This section models the two platform
  functions on the JSON values a city database is made of: \<^verbatim>\<open>null\<close>, strings,
  arrays and objects, an object being the list of its properties in their order and a
  string a list of characters with codes below 256. Numbers and booleans, which can
  occur only in the properties of a city that the model leaves out, are left out too: a
  text that holds one is not a text of the model.
\<close>

datatype json = Null | Str string | Arr "json list" | Obj "(string \<times> json) list"

subsection \<open>\<^verbatim>\<open>JSON.stringify(value, null, 2)\<close>\<close>

definition hexDigit :: "nat \<Rightarrow> char" where
  "hexDigit n = ''0123456789abcdef'' ! n"

text \<open>\<^verbatim>\<open>QuoteJSONString\<close>: the quotation mark and the reverse solidus are escaped,
  the control characters below space by their short form or as \<^verbatim>\<open>\u00xx\<close>.\<close>

definition escape :: "char \<Rightarrow> string" where
  "escape c =
     (if c = CHR 0x22 then [CHR 0x5C, CHR 0x22]
      else if c = CHR 0x5C then [CHR 0x5C, CHR 0x5C]
      else if c = CHR 0x08 then [CHR 0x5C, CHR ''b'']
      else if c = CHR 0x0C then [CHR 0x5C, CHR ''f'']
      else if c = CHR 0x0A then [CHR 0x5C, CHR ''n'']
      else if c = CHR 0x0D then [CHR 0x5C, CHR ''r'']
      else if c = CHR 0x09 then [CHR 0x5C, CHR ''t'']
      else if (of_char c :: nat) < 0x20
        then [CHR 0x5C, CHR ''u'', CHR ''0'', CHR ''0'',
              hexDigit (of_char c div 16), hexDigit (of_char c mod 16)]
      else [c])"

definition quote :: "string \<Rightarrow> string" where
  "quote s = CHR 0x22 # concat (map escape s) @ [CHR 0x22]"

text \<open>\<^verbatim>\<open>SerializeJSONProperty\<close> with a gap of two spaces: \<open>ind\<close> is the current
  indentation. An empty array or object is written without a line break.\<close>

fun ser :: "string \<Rightarrow> json \<Rightarrow> string"
  and serElems :: "string \<Rightarrow> json list \<Rightarrow> string"
  and serMembers :: "string \<Rightarrow> (string \<times> json) list \<Rightarrow> string" where
  "ser ind Null = ''null''"
| "ser ind (Str s) = quote s"
| "ser ind (Arr []) = ''[]''"
| "ser ind (Arr (v # vs)) =
     ''['' @ [CHR 0x0A] @ (ind @ ''  '') @ serElems (ind @ ''  '') (v # vs)
       @ [CHR 0x0A] @ ind @ '']''"
| "ser ind (Obj []) = ''{}''"
| "ser ind (Obj (m # ms)) =
     ''{'' @ [CHR 0x0A] @ (ind @ ''  '') @ serMembers (ind @ ''  '') (m # ms)
       @ [CHR 0x0A] @ ind @ ''}''"
| "serElems ind [] = []"
| "serElems ind (v # vs) =
     ser ind v @ (if vs = [] then [] else '','' @ [CHR 0x0A] @ ind @ serElems ind vs)"
| "serMembers ind [] = []"
| "serMembers ind (m # ms) =
     quote (fst m) @ '': '' @ ser ind (snd m)
       @ (if ms = [] then [] else '','' @ [CHR 0x0A] @ ind @ serMembers ind ms)"

definition stringify :: "json \<Rightarrow> string" where
  "stringify v = ser [] v"

subsection \<open>\<^verbatim>\<open>JSON.parse\<close>\<close>

text \<open>JSON white space: tab, line feed, carriage return and space.\<close>

definition isWs :: "char \<Rightarrow> bool" where
  "isWs c = (c \<in> {CHR 0x09, CHR 0x0A, CHR 0x0D, CHR 0x20})"

definition skipWs :: "string \<Rightarrow> string" where
  "skipWs s = dropWhile isWs s"

definition hexVal :: "char \<Rightarrow> nat option" where
  "hexVal c =
     (let n = (of_char c :: nat)
      in if 48 \<le> n \<and> n \<le> 57 then Some (n - 48)
         else if 97 \<le> n \<and> n \<le> 102 then Some (n - 87)
         else if 65 \<le> n \<and> n \<le> 70 then Some (n - 55)
         else None)"

text \<open>The code unit of \<^verbatim>\<open>\uXXXX\<close>; one beyond 255 is not a character of the
  model's strings.\<close>

definition unicode :: "char \<Rightarrow> char \<Rightarrow> char \<Rightarrow> char \<Rightarrow> char option" where
  "unicode a b c d =
     (case (hexVal a, hexVal b, hexVal c, hexVal d) of
        (Some h3, Some h2, Some h1, Some h0) \<Rightarrow>
          (let n = ((h3 * 16 + h2) * 16 + h1) * 16 + h0
           in if n < 256 then Some (char_of n) else None)
      | _ \<Rightarrow> None)"

definition unescape :: "char \<Rightarrow> char option" where
  "unescape e =
     (if e = CHR 0x22 then Some (CHR 0x22)
      else if e = CHR 0x5C then Some (CHR 0x5C)
      else if e = CHR ''/'' then Some (CHR ''/'')
      else if e = CHR ''b'' then Some (CHR 0x08)
      else if e = CHR ''f'' then Some (CHR 0x0C)
      else if e = CHR ''n'' then Some (CHR 0x0A)
      else if e = CHR ''r'' then Some (CHR 0x0D)
      else if e = CHR ''t'' then Some (CHR 0x09)
      else None)"

text \<open>The characters of a string after its opening quotation mark, up to the closing
  one: the string read and the text that follows it. A control character, an unknown
  escape or the end of the text is a syntax error, \<^term>\<open>None\<close>.\<close>

fun parseChars :: "string \<Rightarrow> (string \<times> string) option" where
  "parseChars [] = None"
| "parseChars (c # cs) =
     (if c = CHR 0x22 then Some ([], cs)
      else if c = CHR 0x5C then
        (case cs of
           [] \<Rightarrow> None
         | e # r \<Rightarrow>
             if e = CHR ''u'' then
               (case r of
                  h3 # h2 # h1 # h0 # r' \<Rightarrow>
                    (case unicode h3 h2 h1 h0 of
                       None \<Rightarrow> None
                     | Some x \<Rightarrow> map_option (apfst ((#) x)) (parseChars r'))
                | _ \<Rightarrow> None)
             else
               (case unescape e of
                  None \<Rightarrow> None
                | Some x \<Rightarrow> map_option (apfst ((#) x)) (parseChars r)))
      else if (of_char c :: nat) < 0x20 then None
      else map_option (apfst ((#) c)) (parseChars cs))"

text \<open>A value, the elements of a non-empty array after its bracket, and the members
  of a non-empty object after its brace, each with the text that follows. The first
  argument bounds the depth of the calls; \<open>parse\<close> starts with the length of the
  text and one more, which is enough for every text that \<open>stringify\<close> writes
  (\<open>parse_stringify\<close> below).\<close>

fun parseValue :: "nat \<Rightarrow> string \<Rightarrow> (json \<times> string) option"
  and parseElems :: "nat \<Rightarrow> string \<Rightarrow> (json list \<times> string) option"
  and parseMembers :: "nat \<Rightarrow> string \<Rightarrow> ((string \<times> json) list \<times> string) option" where
  "parseValue 0 s = None"
| "parseValue (Suc n) s =
     (let t = skipWs s
      in if take 4 t = ''null'' then Some (Null, drop 4 t)
         else
           (case t of
              [] \<Rightarrow> None
            | c # r \<Rightarrow>
                if c = CHR 0x22 then map_option (apfst Str) (parseChars r)
                else if c = CHR ''['' then
                  (case skipWs r of
                     [] \<Rightarrow> None
                   | d # r' \<Rightarrow>
                       if d = CHR '']'' then Some (Arr [], r')
                       else map_option (apfst Arr) (parseElems n r))
                else if c = CHR ''{'' then
                  (case skipWs r of
                     [] \<Rightarrow> None
                   | d # r' \<Rightarrow>
                       if d = CHR ''}'' then Some (Obj [], r')
                       else map_option (apfst Obj) (parseMembers n r))
                else None))"
| "parseElems 0 s = None"
| "parseElems (Suc n) s =
     (case parseValue n s of
        None \<Rightarrow> None
      | Some (v, r) \<Rightarrow>
          (case skipWs r of
             [] \<Rightarrow> None
           | c # r' \<Rightarrow>
               if c = CHR '','' then map_option (apfst ((#) v)) (parseElems n r')
               else if c = CHR '']'' then Some ([v], r')
               else None))"
| "parseMembers 0 s = None"
| "parseMembers (Suc n) s =
     (case skipWs s of
        [] \<Rightarrow> None
      | q # r \<Rightarrow>
          if q \<noteq> CHR 0x22 then None
          else
            (case parseChars r of
               None \<Rightarrow> None
             | Some (k, r1) \<Rightarrow>
                 (case skipWs r1 of
                    [] \<Rightarrow> None
                  | c # r2 \<Rightarrow>
                      if c \<noteq> CHR '':'' then None
                      else
                        (case parseValue n r2 of
                           None \<Rightarrow> None
                         | Some (v, r3) \<Rightarrow>
                             (case skipWs r3 of
                                [] \<Rightarrow> None
                              | d # r4 \<Rightarrow>
                                  if d = CHR '','' then
                                    map_option (apfst ((#) (k, v))) (parseMembers n r4)
                                  else if d = CHR ''}'' then Some ([(k, v)], r4)
                                  else None)))))"

text \<open>\<^verbatim>\<open>JSON.parse(text)\<close>: one value with nothing but white space after it;
  \<^term>\<open>None\<close> is the \<^verbatim>\<open>SyntaxError\<close>.\<close>

definition parse :: "string \<Rightarrow> json option" where
  "parse s =
     (case parseValue (Suc (length s)) s of
        None \<Rightarrow> None
      | Some (v, r) \<Rightarrow> if skipWs r = [] then Some v else None)"

text \<open>The depth of calls that reading a value back takes.\<close>

fun weight :: "json \<Rightarrow> nat"
  and weightElems :: "json list \<Rightarrow> nat"
  and weightMembers :: "(string \<times> json) list \<Rightarrow> nat" where
  "weight Null = 1"
| "weight (Str s) = 1"
| "weight (Arr vs) = Suc (weightElems vs)"
| "weight (Obj ms) = Suc (weightMembers ms)"
| "weightElems [] = 0"
| "weightElems (v # vs) = Suc (weight v + weightElems vs)"
| "weightMembers [] = 0"
| "weightMembers (m # ms) = Suc (weight (snd m) + weightMembers ms)"

subsection \<open>The city database in the data file\<close>

text \<open>Reading a property of a parsed object: of a name written twice, the last one
  counts.\<close>

definition property :: "string \<Rightarrow> (string \<times> 'a) list \<Rightarrow> 'a option" where
  "property k ms = map_of (rev ms) k"

text \<open>
  The database of the handlers that a JSON value stands for: an object whose
  properties are \<^verbatim>\<open>null\<close> or arrays of cities, a city being an object with a string
  \<^verbatim>\<open>name\<close> and, for its attractions and for its restaurants, an array of strings,
  \<^verbatim>\<open>null\<close> or nothing. A value of another shape stands for no database,
  \<^term>\<open>None\<close>.
\<close>

definition asString :: "json \<Rightarrow> string option" where
  "asString v = (case v of Str s \<Rightarrow> Some s | _ \<Rightarrow> None)"

definition asItems :: "json option \<Rightarrow> string list option option" where
  "asItems p =
     (case p of
        None \<Rightarrow> Some None
      | Some Null \<Rightarrow> Some None
      | Some (Arr vs) \<Rightarrow> map_option Some (those (map asString vs))
      | Some _ \<Rightarrow> None)"

definition asCity :: "json \<Rightarrow> city option" where
  "asCity v =
     (case v of
        Obj ms \<Rightarrow>
          (case (property ''name'' ms, asItems (property ''attractions'' ms),
                 asItems (property ''restaurants'' ms)) of
             (Some (Str n), Some as, Some rs) \<Rightarrow>
               Some \<lparr>name = n, attractions = as, restaurants = rs\<rparr>
           | _ \<Rightarrow> None)
      | _ \<Rightarrow> None)"

definition asEntry :: "json \<Rightarrow> jsonval option" where
  "asEntry v =
     (case v of
        Null \<Rightarrow> Some JNull
      | Arr vs \<Rightarrow> map_option JCities (those (map asCity vs))
      | _ \<Rightarrow> None)"

definition asData :: "json \<Rightarrow> cityData option" where
  "asData v =
     (case v of
        Obj ms \<Rightarrow>
          if list_all (\<lambda>m. asEntry (snd m) \<noteq> None) ms
          then Some (\<lambda>k. case property k ms of None \<Rightarrow> None | Some e \<Rightarrow> asEntry e)
          else None
      | _ \<Rightarrow> None)"

text \<open>The JSON value of a database given by its entries in their order, each city
  with its name first and the arrays it has.\<close>

definition cityJson :: "city \<Rightarrow> json" where
  "cityJson c =
     Obj ([(''name'', Str (name c))]
          @ (case attractions c of None \<Rightarrow> [] | Some as \<Rightarrow> [(''attractions'', Arr (map Str as))])
          @ (case restaurants c of None \<Rightarrow> [] | Some rs \<Rightarrow> [(''restaurants'', Arr (map Str rs))]))"

definition entryJson :: "jsonval \<Rightarrow> json" where
  "entryJson e = (case e of JNull \<Rightarrow> Null | JCities cs \<Rightarrow> Arr (map cityJson cs))"

definition dataJson :: "(string \<times> jsonval) list \<Rightarrow> json" where
  "dataJson es = Obj (map (\<lambda>e. (fst e, entryJson (snd e))) es)"

subsection \<open>Reading and writing the text\<close>

text \<open>The data file as the text it holds, \<^term>\<open>None\<close> when the file does not exist:
  \<^verbatim>\<open>readData\<close> and \<^verbatim>\<open>writeData\<close> of city.js on the text, then
  \<^verbatim>\<open>getUserCities\<close> and \<^verbatim>\<open>GET /\<close> over what is read. The result is
  \<^term>\<open>None\<close> where \<^verbatim>\<open>JSON.parse\<close> throws, and where the value read is not a database
  of the shape above.\<close>

type_synonym textFile = "string option"

definition readDataText :: "textFile \<Rightarrow> json option" where
  "readDataText file =
     (case file of
        None \<Rightarrow> Some (Obj [(''cities'', Arr []), (''latest'', Null)])
      | Some t \<Rightarrow> parse t)"

definition writeDataText :: "json \<Rightarrow> textFile \<Rightarrow> textFile" where
  "writeDataText data file = Some (stringify data)"

definition getUserCitiesText :: "config \<Rightarrow> textFile \<Rightarrow> string option \<Rightarrow> city list option" where
  "getUserCitiesText cfg file who =
     (case readDataText file of
        None \<Rightarrow> None
      | Some v \<Rightarrow> map_option (\<lambda>data. getUserCities cfg (Some data) who) (asData v))"

definition listCitiesText ::
  "config \<Rightarrow> string option \<Rightarrow> textFile \<Rightarrow> ((error + city list) \<times> textFile) option" where
  "listCitiesText cfg who file =
     map_option (\<lambda>cs. (Inr cs, file)) (getUserCitiesText cfg file who)"

text \<open>The data file of the handlers above that a text file stands for: the database
  its text is read as.\<close>

definition valueFile :: "textFile \<Rightarrow> dataFile option" where
  "valueFile file =
     (case file of
        None \<Rightarrow> Some None
      | Some t \<Rightarrow> map_option Some (Option.bind (parse t) asData))"

section \<open>The limits at rest\<close>

text \<open>The invariant of the stored database: a city holds at most 5 attractions and
  at most 5 restaurants, a list holds at most 10 cities, and every list stored under a
  username is such a list. The \<open>latest\<close> snapshot is not a username's list and is
  stated on its own.\<close>

definition cityWithinLimits :: "city \<Rightarrow> bool" where
  "cityWithinLimits c \<longleftrightarrow>
     length (orEmpty (attractions c)) \<le> 5 \<and> length (orEmpty (restaurants c)) \<le> 5"

definition listWithinLimits :: "city list \<Rightarrow> bool" where
  "listWithinLimits cs \<longleftrightarrow> length cs \<le> 10 \<and> (\<forall>c\<in>set cs. cityWithinLimits c)"

definition usersWithinLimits :: "cityData \<Rightarrow> bool" where
  "usersWithinLimits data \<longleftrightarrow>
     (\<forall>key cs. key \<noteq> ''latest'' \<and> data key = Some (JCities cs) \<longrightarrow> listWithinLimits cs)"

definition latestWithinLimits :: "cityData \<Rightarrow> bool" where
  "latestWithinLimits data \<longleftrightarrow>
     (\<forall>cs. data ''latest'' = Some (JCities cs) \<longrightarrow> listWithinLimits cs)"

text \<open>What a handler does to the data file: it answers with an error and leaves the
  file as it is, or it succeeds for a session user and writes the data read with one
  new list stored under that user and as \<open>latest\<close>, a list within the limits
  when the user's list read was.\<close>

definition keepsOrStores :: "string option \<Rightarrow> dataFile \<Rightarrow> (error + 'a) \<times> dataFile \<Rightarrow> bool" where
  "keepsOrStores who file out \<longleftrightarrow>
     (isl (fst out) \<and> snd out = file)
   \<or> (\<exists>u cs'. who = Some u \<and> u \<noteq> [] \<and> \<not> isl (fst out)
         \<and> snd out =
             Some ((readData file)(u \<mapsto> JCities cs', ''latest'' \<mapsto> JCities cs'))
         \<and> (listWithinLimits (orEmpty (entry (readData file) u)) \<longrightarrow> listWithinLimits cs'))"

section \<open>Example data, after tests/city.test.js\<close>

definition emptyCity :: "string \<Rightarrow> city" where
  "emptyCity n = \<lparr>name = n, attractions = Some [], restaurants = Some []\<rparr>"

definition fifteenCities :: "city list" where
  "fifteenCities =
     map emptyCity
       [''City0'', ''City1'', ''City2'', ''City3'', ''City4'', ''City5'', ''City6'', ''City7'',
        ''City8'', ''City9'', ''City10'', ''City11'', ''City12'', ''City13'', ''City14'']"

definition testCity :: city where
  "testCity =
     \<lparr>name = ''TestCity'',
      attractions = Some [''A0'', ''A1'', ''A2'', ''A3'', ''A4'', ''A5'', ''A6''],
      restaurants = Some [''R0'', ''R1'', ''R2'', ''R3'', ''R4'', ''R5'', ''R6'']\<rparr>"

definition lastcitiesFile :: dataFile where
  "lastcitiesFile =
     Some (Map.empty(''lastcities'' \<mapsto> JCities fifteenCities,
                     ''latest'' \<mapsto> JCities [testCity]))"

definition tenCities :: "city list" where
  "tenCities =
     map emptyCity
       [''City0'', ''City1'', ''City2'', ''City3'', ''City4'', ''City5'', ''City6'', ''City7'',
        ''City8'', ''City9'']"

definition eveFile :: dataFile where
  "eveFile = Some (Map.empty(''eve'' \<mapsto> JCities tenCities, ''latest'' \<mapsto> JCities tenCities))"

definition paris :: city where
  "paris = emptyCity ''Paris''"

definition aliceFile :: dataFile where
  "aliceFile = Some (Map.empty(''alice'' \<mapsto> JCities [paris], ''latest'' \<mapsto> JCities [paris]))"

definition cityThree :: city where
  "cityThree =
     \<lparr>name = ''City3'',
      attractions = Some [''A0'', ''A1'', ''A2'', ''A3'', ''A4'', ''A5'', ''A6''],
      restaurants = None\<rparr>"

definition fullRome :: city where
  "fullRome =
     \<lparr>name = ''Rome'',
      attractions =
        Some [''Attraction0'', ''Attraction1'', ''Attraction2'', ''Attraction3'', ''Attraction4''],
      restaurants =
        Some [''Restaurant0'', ''Restaurant1'', ''Restaurant2'', ''Restaurant3'', ''Restaurant4'']\<rparr>"

definition frankFile :: dataFile where
  "frankFile = Some (Map.empty(''frank'' \<mapsto> JCities [fullRome], ''latest'' \<mapsto> JCities [fullRome]))"

definition rome :: city where
  "rome = \<lparr>name = ''Rome'', attractions = Some [''Colosseum''], restaurants = Some [''Roscioli'']\<rparr>"

definition carolFile :: dataFile where
  "carolFile = Some (Map.empty(''carol'' \<mapsto> JCities [rome], ''latest'' \<mapsto> JCities [paris]))"

definition london :: city where
  "london = emptyCity ''London''"

definition bobFile :: dataFile where
  "bobFile = Some (Map.empty(''bob'' \<mapsto> JCities [london], ''latest'' \<mapsto> JCities [london]))"

subsection \<open>Carol's file as text\<close>

text \<open>The database of \<^term>\<open>carolFile\<close> as a JSON value, and the text that
  \<^verbatim>\<open>JSON.stringify(data, null, 2)\<close> gives for it.\<close>

definition carolJson :: json where
  "carolJson = dataJson [(''carol'', JCities [rome]), (''latest'', JCities [paris])]"

definition carolText :: string where
  \<open>carolText =
     ''{\<newline>'' @
     ''  "carol": [\<newline>'' @
     ''    {\<newline>'' @
     ''      "name": "Rome",\<newline>'' @
     ''      "attractions": [\<newline>'' @
     ''        "Colosseum"\<newline>'' @
     ''      ],\<newline>'' @
     ''      "restaurants": [\<newline>'' @
     ''        "Roscioli"\<newline>'' @
     ''      ]\<newline>'' @
     ''    }\<newline>'' @
     ''  ],\<newline>'' @
     ''  "latest": [\<newline>'' @
     ''    {\<newline>'' @
     ''      "name": "Paris",\<newline>'' @
     ''      "attractions": [],\<newline>'' @
     ''      "restaurants": []\<newline>'' @
     ''    }\<newline>'' @
     ''  ]\<newline>'' @
     ''}''\<close>

text \<open>The same database written by hand on one line, with an escaped solidus and a
  property written twice.\<close>

definition carolCompact :: string where
  \<open>carolCompact =
     ''{"carol":null,"carol":[{"restaurants":["Roscioli"],"name":"Rome",'' @
     ''"attractions":["Colosseu'' @ [CHR 0x5C] @ ''u006D"]}],'' @
     '' "latest" : [ {"name":"Paris","attractions":[],"restaurants":[]} ] }''\<close>

text \<open>A name with a quotation mark, a reverse solidus, a line feed and an escape
  character in it.\<close>

definition oddName :: string where
  \<open>oddName = ''a"b'' @ [CHR 0x5C, CHR 0x0A, CHR 0x1B] @ ''c''\<close>

definition carolCompactJson :: json where
  "carolCompactJson =
     Obj [(''carol'', Null),
          (''carol'',
           Arr [Obj [(''restaurants'', Arr [Str ''Roscioli'']), (''name'', Str ''Rome''),
                     (''attractions'', Arr [Str ''Colosseum''])]]),
          (''latest'',
           Arr [Obj [(''name'', Str ''Paris''), (''attractions'', Arr []),
                     (''restaurants'', Arr [])]])]"

section \<open>Example data, after tests/user.test.js\<close>

definition noUsers :: userState where
  "noUsers = \<lparr>users = Some [], session = None\<rparr>"

section \<open>Platform functions: basic facts\<close>

lemma slice_last: "0 < n \<Longrightarrow> slice (- n) None xs = drop (length xs - nat n) xs"
  by (auto simp: slice_def Let_def max_def nat_diff_distrib')

lemma slice_first: "0 \<le> n \<Longrightarrow> slice 0 (Some n) xs = take (nat n) xs"
  by (auto simp: slice_def Let_def min_def)

section \<open>Listing cities\<close>

lemma lastItems_defaults:
  "lastItems defaults c =
     c\<lparr>attractions :=
         Some (drop (length (orEmpty (attractions c)) - 5) (orEmpty (attractions c))),
       restaurants :=
         Some (drop (length (orEmpty (restaurants c)) - 5) (orEmpty (restaurants c)))\<rparr>"
  by (simp add: lastItems_def defaults_def slice_last)

lemma getUserCities_user:
  assumes "u \<noteq> []" and "entry (readData file) u = Some cs"
  shows "getUserCities defaults file (Some u) =
           map (lastItems defaults) (drop (length cs - 10) cs)"
  using assms by (simp add: getUserCities_def userEntry_def defaults_def slice_last)

lemma getUserCities_guest:
  "getUserCities defaults file None =
     map (lastItems defaults)
       (drop (length (orEmpty (entry (readData file) ''latest'')) - 10)
          (orEmpty (entry (readData file) ''latest'')))"
  by (simp add: getUserCities_def userEntry_def defaults_def slice_last orEmpty_def
      split: option.splits)

text \<open>
  Claim C1. Under the default limits, \<open>listCities\<close> for a session user who has an
  entry in the stored database returns that user's list cut to its last 10 entries, in
  their stored order; without a session user it returns the \<open>latest\<close> snapshot cut
  the same way; it leaves the data file as it is; and every returned city carries the
  last 5 of its stored attractions and the last 5 of its stored restaurants, however
  many were stored.
\<close>

theorem listCities_last_ten_last_five:
  "(u \<noteq> [] \<and> entry (readData file) u = Some cs \<longrightarrow>
      listCities defaults (Some u) file =
        (Inr (map (lastItems defaults) (drop (length cs - 10) cs)), file))
   \<and> listCities defaults None file =
       (Inr (map (lastItems defaults)
              (drop (length (orEmpty (entry (readData file) ''latest'')) - 10)
                 (orEmpty (entry (readData file) ''latest'')))), file)
   \<and> lastItems defaults c =
       c\<lparr>attractions :=
           Some (drop (length (orEmpty (attractions c)) - 5) (orEmpty (attractions c))),
         restaurants :=
           Some (drop (length (orEmpty (restaurants c)) - 5) (orEmpty (restaurants c)))\<rparr>"
  by (simp add: listCities_def getUserCities_user getUserCities_guest lastItems_defaults)

text \<open>The two examples of the test suite: fifteen cities \<open>City0\<close> to \<open>City14\<close> are
  listed as \<open>City5\<close> to \<open>City14\<close>, and a city stored with \<open>A0\<close> to \<open>A6\<close> is
  shown with \<open>A2\<close> to \<open>A6\<close>.\<close>

theorem listCities_last_ten_last_five_witness:
  "''lastcities'' \<noteq> []
   \<and> entry (readData lastcitiesFile) ''lastcities'' = Some fifteenCities
   \<and> listCities defaults (Some ''lastcities'') lastcitiesFile =
       (Inr (map emptyCity
               [''City5'', ''City6'', ''City7'', ''City8'', ''City9'', ''City10'', ''City11'',
                ''City12'', ''City13'', ''City14'']), lastcitiesFile)
   \<and> listCities defaults None lastcitiesFile =
       (Inr [\<lparr>name = ''TestCity'',
               attractions = Some [''A2'', ''A3'', ''A4'', ''A5'', ''A6''],
               restaurants = Some [''R2'', ''R3'', ''R4'', ''R5'', ''R6'']\<rparr>], lastcitiesFile)"
  using listCities_last_ten_last_five [of "''lastcities''" lastcitiesFile fifteenCities testCity]
  by (simp add: readData_def entry_def lastcitiesFile_def fifteenCities_def emptyCity_def
      testCity_def orEmpty_def lastItems_defaults)

section \<open>Finding an element and its index\<close>

lemma findIndex_ge: "- 1 \<le> findIndex P xs"
  by (induction xs) (auto simp: Let_def)

lemma findIndex_none: "findIndex P xs = - 1 \<longleftrightarrow> (\<forall>x\<in>set xs. \<not> P x)"
proof (induction xs)
  case Nil
  show ?case by simp
next
  case (Cons x xs)
  have "- 1 \<le> findIndex P xs" by (rule findIndex_ge)
  with Cons show ?case by (auto simp: Let_def)
qed

lemma findIndex_found:
  "findIndex P xs \<noteq> - 1 \<Longrightarrow>
     0 \<le> findIndex P xs \<and> nat (findIndex P xs) < length xs \<and> P (xs ! nat (findIndex P xs))"
proof (induction xs)
  case Nil
  then show ?case by simp
next
  case (Cons x xs)
  show ?case
  proof (cases "P x")
    case True
    then show ?thesis by simp
  next
    case False
    with Cons.prems have ne: "findIndex P xs \<noteq> - 1" by (auto simp: Let_def split: if_splits)
    from Cons.IH [OF ne] False ne show ?thesis
      by (auto simp: Let_def nat_add_distrib)
  qed
qed

lemma findIndex_first:
  "findIndex P xs \<noteq> - 1 \<Longrightarrow> j < nat (findIndex P xs) \<Longrightarrow> \<not> P (xs ! j)"
proof (induction xs arbitrary: j)
  case Nil
  then show ?case by simp
next
  case (Cons x xs)
  show ?case
  proof (cases "P x")
    case True
    with Cons.prems show ?thesis by simp
  next
    case False
    with Cons.prems have ne: "findIndex P xs \<noteq> - 1" by (auto simp: Let_def split: if_splits)
    from findIndex_found [OF ne] have ge: "0 \<le> findIndex P xs" by simp
    show ?thesis
    proof (cases j)
      case 0
      with False show ?thesis by simp
    next
      case (Suc k)
      with Cons.prems(2) False ne ge have "k < nat (findIndex P xs)"
        by (auto simp: Let_def nat_add_distrib)
      from Cons.IH [OF ne this] Suc show ?thesis by simp
    qed
  qed
qed

lemma find_findIndex_None: "find P xs = None \<longleftrightarrow> findIndex P xs = - 1"
  by (auto simp: find_None_iff findIndex_none)

lemma find_findIndex_Some:
  "find P xs = Some c \<Longrightarrow> findIndex P xs \<noteq> - 1 \<and> xs ! nat (findIndex P xs) = c"
proof (induction xs)
  case Nil
  then show ?case by simp
next
  case (Cons x xs)
  show ?case
  proof (cases "P x")
    case True
    with Cons.prems show ?thesis by simp
  next
    case False
    with Cons.prems have f: "find P xs = Some c" by simp
    from Cons.IH [OF f] have ne: "findIndex P xs \<noteq> - 1" and nth: "xs ! nat (findIndex P xs) = c"
      by simp_all
    from findIndex_found [OF ne] have "0 \<le> findIndex P xs" by simp
    with False ne nth show ?thesis by (auto simp: Let_def nat_add_distrib)
  qed
qed

lemma find_update_first:
  assumes "findIndex P xs \<noteq> - 1" and "P y"
  shows "find P (xs[nat (findIndex P xs) := y]) = Some y"
  using assms
proof (induction xs)
  case Nil
  then show ?case by simp
next
  case (Cons x xs)
  show ?case
  proof (cases "P x")
    case True
    with Cons.prems show ?thesis by simp
  next
    case False
    with Cons.prems have ne: "findIndex P xs \<noteq> - 1" by (auto simp: Let_def split: if_splits)
    from findIndex_found [OF ne] have ge: "0 \<le> findIndex P xs" by simp
    then have "nat (findIndex P xs + 1) = Suc (nat (findIndex P xs))" by (simp add: nat_add_distrib)
    with Cons.IH [OF ne Cons.prems(2)] False ne show ?thesis by (simp add: Let_def)
  qed
qed

lemma find_append_new: "\<forall>x\<in>set xs. \<not> P x \<Longrightarrow> P y \<Longrightarrow> find P (xs @ [y]) = Some y"
  by (induction xs) auto

section \<open>Adding or updating a city\<close>

lemma findIndex_field: "findIndex (\<lambda>x. f x = v) xs = - 1 \<longleftrightarrow> v \<notin> set (map f xs)"
  by (force simp: findIndex_none)

lemma firstItems_defaults:
  "firstItems defaults c =
     c\<lparr>attractions := Some (take 5 (orEmpty (attractions c))),
       restaurants := Some (take 5 (orEmpty (restaurants c)))\<rparr>"
  by (simp add: firstItems_def defaults_def slice_first)

lemma addOrUpdateCity_unauthenticated:
  "addOrUpdateCity cfg None body file = (Inl NotAuthenticated, file)"
  "addOrUpdateCity cfg (Some []) body file = (Inl NotAuthenticated, file)"
  by (simp_all add: addOrUpdateCity_def)

lemma addOrUpdateCity_no_name:
  "u \<noteq> [] \<Longrightarrow> addOrUpdateCity cfg (Some u) None file = (Inl MissingName, file)"
  "u \<noteq> [] \<Longrightarrow> name c = [] \<Longrightarrow>
     addOrUpdateCity cfg (Some u) (Some c) file = (Inl MissingName, file)"
  by (simp_all add: addOrUpdateCity_def)

lemma addOrUpdateCity_replace:
  assumes "u \<noteq> []" and "name c \<noteq> []"
    and "cs = orEmpty (entry (readData file) u)"
    and "name c \<in> set (map name cs)"
    and "cs' = cs[nat (findIndex (\<lambda>x. name x = name c) cs) := firstItems cfg c]"
  shows "addOrUpdateCity cfg (Some u) (Some c) file =
           (Inr (firstItems cfg c),
            Some ((readData file)(u \<mapsto> JCities cs', ''latest'' \<mapsto> JCities cs')))"
proof -
  from assms(4) have "findIndex (\<lambda>x. name x = name c) cs \<noteq> - 1"
    by (simp add: findIndex_field)
  with findIndex_found [OF this] assms show ?thesis
    by (simp add: addOrUpdateCity_def Let_def writeData_def)
qed

lemma addOrUpdateCity_append:
  assumes "u \<noteq> []" and "name c \<noteq> []"
    and "cs = orEmpty (entry (readData file) u)"
    and "name c \<notin> set (map name cs)"
    and "int (length cs) < maxCitiesPerUser cfg"
    and "cs' = cs @ [firstItems cfg c]"
  shows "addOrUpdateCity cfg (Some u) (Some c) file =
           (Inr (firstItems cfg c),
            Some ((readData file)(u \<mapsto> JCities cs', ''latest'' \<mapsto> JCities cs')))"
proof -
  from assms(4) have "findIndex (\<lambda>x. name x = name c) cs = - 1"
    by (simp add: findIndex_field)
  with assms show ?thesis
    by (simp add: addOrUpdateCity_def Let_def writeData_def)
qed

lemma addOrUpdateCity_limit:
  assumes "u \<noteq> []" and "name c \<noteq> []"
    and "cs = orEmpty (entry (readData file) u)"
    and "name c \<notin> set (map name cs)"
    and "maxCitiesPerUser cfg \<le> int (length cs)"
  shows "addOrUpdateCity cfg (Some u) (Some c) file =
           (Inl (CityLimitReached (maxCitiesPerUser cfg)), file)"
proof -
  from assms(4) have "findIndex (\<lambda>x. name x = name c) cs = - 1"
    by (simp add: findIndex_field)
  with assms show ?thesis
    by (simp add: addOrUpdateCity_def Let_def)
qed

lemma defaults_limits:
  "maxCitiesPerUser defaults = 10"
  "maxAttractionsPerCity defaults = 5"
  "maxRestaurantsPerCity defaults = 5"
  by (simp_all add: defaults_def)

lemma entry_update:
  "entry (data(u \<mapsto> JCities cs, ''latest'' \<mapsto> JCities cs)) u = Some cs"
  "entry (data(u \<mapsto> JCities cs, ''latest'' \<mapsto> JCities cs)) ''latest'' = Some cs"
  by (simp_all add: entry_def)

lemma name_firstItems: "name (firstItems cfg c) = name c"
  by (simp add: firstItems_def)

text \<open>
  Claim C2. Whenever \<open>addOrUpdateCity\<close> succeeds under the default limits, the city
  it answers with is the incoming city with its attractions and its restaurants cut
  to their first 5 elements (a missing array counting as empty), and that city is the
  one stored under the incoming name in the user's list of the written data file.
\<close>

theorem addOrUpdateCity_stores_first_five:
  assumes "fst (addOrUpdateCity defaults who body file) = Inr stored"
  shows "\<exists>u c data cs.
           who = Some u \<and> body = Some c
         \<and> snd (addOrUpdateCity defaults who body file) = Some data
         \<and> entry data u = Some cs
         \<and> find (\<lambda>x. name x = name c) cs = Some stored
         \<and> stored = c\<lparr>attractions := Some (take 5 (orEmpty (attractions c))),
                        restaurants := Some (take 5 (orEmpty (restaurants c)))\<rparr>"
proof -
  from assms have "who \<noteq> None \<and> who \<noteq> Some []"
    by (cases who) (auto simp: addOrUpdateCity_unauthenticated)
  then obtain u where who: "who = Some u" and u: "u \<noteq> []" by (cases who) auto
  from assms who u have "body \<noteq> None \<and> (\<forall>c. body = Some c \<longrightarrow> name c \<noteq> [])"
    by (cases body) (auto simp: addOrUpdateCity_no_name)
  then obtain c where body: "body = Some c" and c: "name c \<noteq> []" by (cases body) auto
  define cs where "cs = orEmpty (entry (readData file) u)"
  define P where "P = (\<lambda>x::city. name x = name c)"
  let ?c' = "firstItems defaults c"
  have Pc: "P ?c'" by (simp add: P_def name_firstItems)
  show ?thesis
  proof (cases "name c \<in> set (map name cs)")
    case True
    define cs' where "cs' = cs[nat (findIndex P cs) := ?c']"
    from True have ne: "findIndex P cs \<noteq> - 1" by (simp add: P_def findIndex_field)
    have run: "addOrUpdateCity defaults (Some u) (Some c) file =
        (Inr ?c', Some ((readData file)(u \<mapsto> JCities cs', ''latest'' \<mapsto> JCities cs')))"
      using u c cs_def True cs'_def [unfolded P_def] by (rule addOrUpdateCity_replace)
    have "find P cs' = Some ?c'" unfolding cs'_def using ne Pc by (rule find_update_first)
    with run assms who body show ?thesis
      by (simp add: entry_update P_def firstItems_defaults)
  next
    case False
    define cs' where "cs' = cs @ [?c']"
    from False have "findIndex P cs = - 1" by (simp add: P_def findIndex_field)
    then have none: "\<forall>x\<in>set cs. \<not> P x" by (simp add: findIndex_none)
    show ?thesis
    proof (cases "int (length cs) < maxCitiesPerUser defaults")
      case True
      have run: "addOrUpdateCity defaults (Some u) (Some c) file =
          (Inr ?c', Some ((readData file)(u \<mapsto> JCities cs', ''latest'' \<mapsto> JCities cs')))"
        using u c cs_def False True cs'_def by (rule addOrUpdateCity_append)
      have "find P cs' = Some ?c'" unfolding cs'_def using none Pc by (rule find_append_new)
      with run assms who body show ?thesis
        by (simp add: entry_update P_def firstItems_defaults)
    next
      case lim: False
      then have "maxCitiesPerUser defaults \<le> int (length cs)" by simp
      with u c cs_def False
      have "addOrUpdateCity defaults (Some u) (Some c) file =
          (Inl (CityLimitReached (maxCitiesPerUser defaults)), file)"
        by (rule addOrUpdateCity_limit)
      with assms who body show ?thesis by simp
    qed
  qed
qed

text \<open>A city posted with seven attractions and seven restaurants while no data file
  exists is stored with the first five of each.\<close>

theorem addOrUpdateCity_stores_first_five_witness:
  "fst (addOrUpdateCity defaults (Some ''alice'') (Some testCity) None) =
     Inr \<lparr>name = ''TestCity'',
          attractions = Some [''A0'', ''A1'', ''A2'', ''A3'', ''A4''],
          restaurants = Some [''R0'', ''R1'', ''R2'', ''R3'', ''R4'']\<rparr>
   \<and> (\<exists>data cs.
         snd (addOrUpdateCity defaults (Some ''alice'') (Some testCity) None) = Some data
       \<and> entry data ''alice'' = Some cs
       \<and> find (\<lambda>x. name x = ''TestCity'') cs =
           Some \<lparr>name = ''TestCity'',
                 attractions = Some [''A0'', ''A1'', ''A2'', ''A3'', ''A4''],
                 restaurants = Some [''R0'', ''R1'', ''R2'', ''R3'', ''R4'']\<rparr>)"
proof -
  have h: "fst (addOrUpdateCity defaults (Some ''alice'') (Some testCity) None) =
     Inr \<lparr>name = ''TestCity'',
          attractions = Some [''A0'', ''A1'', ''A2'', ''A3'', ''A4''],
          restaurants = Some [''R0'', ''R1'', ''R2'', ''R3'', ''R4'']\<rparr>"
    by (simp add: addOrUpdateCity_def Let_def readData_def entry_def orEmpty_def testCity_def
        firstItems_defaults writeData_def defaults_limits)
  from addOrUpdateCity_stores_first_five [OF h] h show ?thesis
    by (auto simp: testCity_def)
qed

text \<open>
  Claim C3, amended. For a session user and a posted city: an empty name is refused
  with \<open>MissingName\<close>; a city whose name is already in the user's stored list
  replaces the first city of that name at its position, whatever the length of the
  list; a city with a new name is refused with \<open>CityLimitReached\<close> when the list
  holds 10 cities or more, and is appended when the list holds fewer than 10, so the
  list grows by one. In both successful cases the stored list also becomes the
  \<open>latest\<close> snapshot.
\<close>

theorem addOrUpdateCity_replace_append_or_limit:
  assumes "u \<noteq> []"
    and "cs = orEmpty (entry (readData file) u)"
    and "stored = firstItems defaults c"
  shows
    "(name c = [] \<longrightarrow>
        addOrUpdateCity defaults (Some u) (Some c) file = (Inl MissingName, file))
   \<and> (name c \<noteq> [] \<and> name c \<in> set (map name cs) \<longrightarrow>
        (\<exists>i<length cs. name (cs ! i) = name c \<and> (\<forall>j<i. name (cs ! j) \<noteq> name c)
           \<and> addOrUpdateCity defaults (Some u) (Some c) file =
               (Inr stored,
                Some ((readData file)(u \<mapsto> JCities (cs[i := stored]),
                                      ''latest'' \<mapsto> JCities (cs[i := stored]))))))
   \<and> (name c \<noteq> [] \<and> name c \<notin> set (map name cs) \<and> length cs < 10 \<longrightarrow>
        addOrUpdateCity defaults (Some u) (Some c) file =
          (Inr stored,
           Some ((readData file)(u \<mapsto> JCities (cs @ [stored]),
                                 ''latest'' \<mapsto> JCities (cs @ [stored]))))
        \<and> length (cs @ [stored]) = length cs + 1)
   \<and> (name c \<noteq> [] \<and> name c \<notin> set (map name cs) \<and> 10 \<le> length cs \<longrightarrow>
        addOrUpdateCity defaults (Some u) (Some c) file = (Inl (CityLimitReached 10), file))"
proof (intro conjI impI)
  assume "name c = []"
  with assms(1) show "addOrUpdateCity defaults (Some u) (Some c) file = (Inl MissingName, file)"
    by (simp add: addOrUpdateCity_no_name)
next
  assume a: "name c \<noteq> [] \<and> name c \<in> set (map name cs)"
  let ?P = "\<lambda>x::city. name x = name c"
  let ?i = "nat (findIndex ?P cs)"
  from a have ne: "findIndex ?P cs \<noteq> - 1" by (simp add: findIndex_field)
  from findIndex_found [OF ne] have i: "?i < length cs" and at: "name (cs ! ?i) = name c"
    by simp_all
  from findIndex_first [OF ne] have first: "\<forall>j<?i. name (cs ! j) \<noteq> name c" by simp
  have "addOrUpdateCity defaults (Some u) (Some c) file =
      (Inr stored, Some ((readData file)(u \<mapsto> JCities (cs[?i := stored]),
                                        ''latest'' \<mapsto> JCities (cs[?i := stored]))))"
    using assms(1) a assms(2) by (simp add: addOrUpdateCity_replace assms(3))
  with i at first
  show "\<exists>i<length cs. name (cs ! i) = name c \<and> (\<forall>j<i. name (cs ! j) \<noteq> name c)
           \<and> addOrUpdateCity defaults (Some u) (Some c) file =
               (Inr stored,
                Some ((readData file)(u \<mapsto> JCities (cs[i := stored]),
                                      ''latest'' \<mapsto> JCities (cs[i := stored]))))"
    by blast
next
  assume a: "name c \<noteq> [] \<and> name c \<notin> set (map name cs) \<and> length cs < 10"
  then have "int (length cs) < maxCitiesPerUser defaults" by (simp add: defaults_limits)
  with assms a
  show "addOrUpdateCity defaults (Some u) (Some c) file =
          (Inr stored,
           Some ((readData file)(u \<mapsto> JCities (cs @ [stored]),
                                 ''latest'' \<mapsto> JCities (cs @ [stored]))))"
    by (simp add: addOrUpdateCity_append)
next
  show "length (cs @ [stored]) = length cs + 1" by simp
next
  assume a: "name c \<noteq> [] \<and> name c \<notin> set (map name cs) \<and> 10 \<le> length cs"
  then have "maxCitiesPerUser defaults \<le> int (length cs)" by (simp add: defaults_limits)
  with assms a
  have "addOrUpdateCity defaults (Some u) (Some c) file =
      (Inl (CityLimitReached (maxCitiesPerUser defaults)), file)"
    by (simp add: addOrUpdateCity_limit)
  then show "addOrUpdateCity defaults (Some u) (Some c) file = (Inl (CityLimitReached 10), file)"
    by (simp add: defaults_limits)
qed

text \<open>The theorem at the stored lists of the tests: a nameless city is refused; a
  city named \<open>City3\<close> replaces the stored \<open>City3\<close> among ten; \<open>Rome\<close> is
  appended to a list of one; an eleventh new city is refused.\<close>

theorem addOrUpdateCity_replace_append_or_limit_witness:
  "''alice'' \<noteq> [] \<and> ''eve'' \<noteq> []
   \<and> [paris] = orEmpty (entry (readData aliceFile) ''alice'')
   \<and> tenCities = orEmpty (entry (readData eveFile) ''eve'')
   \<and> addOrUpdateCity defaults (Some ''alice'') (Some (emptyCity [])) aliceFile =
       (Inl MissingName, aliceFile)
   \<and> name cityThree \<in> set (map name tenCities)
   \<and> (\<exists>i<length tenCities. name (tenCities ! i) = ''City3''
        \<and> addOrUpdateCity defaults (Some ''eve'') (Some cityThree) eveFile =
            (Inr (firstItems defaults cityThree),
             Some ((readData eveFile)
                (''eve'' \<mapsto> JCities (tenCities[i := firstItems defaults cityThree]),
                 ''latest'' \<mapsto> JCities (tenCities[i := firstItems defaults cityThree])))))
   \<and> ''Rome'' \<notin> set (map name [paris]) \<and> length [paris] < 10
   \<and> addOrUpdateCity defaults (Some ''alice'') (Some (emptyCity ''Rome'')) aliceFile =
       (Inr (emptyCity ''Rome''),
        Some ((readData aliceFile)
           (''alice'' \<mapsto> JCities [paris, emptyCity ''Rome''],
            ''latest'' \<mapsto> JCities [paris, emptyCity ''Rome''])))
   \<and> ''City10'' \<notin> set (map name tenCities) \<and> 10 \<le> length tenCities
   \<and> addOrUpdateCity defaults (Some ''eve'') (Some (emptyCity ''City10'')) eveFile =
       (Inl (CityLimitReached 10), eveFile)"
proof -
  have alice: "[paris] = orEmpty (entry (readData aliceFile) ''alice'')"
    by (simp add: aliceFile_def readData_def entry_def orEmpty_def)
  have eve: "tenCities = orEmpty (entry (readData eveFile) ''eve'')"
    by (simp add: eveFile_def readData_def entry_def orEmpty_def)
  have ne: "''alice'' \<noteq> []" "''eve'' \<noteq> []" by simp_all
  have three: "name cityThree \<noteq> [] \<and> name cityThree \<in> set (map name tenCities)"
    by (simp add: cityThree_def tenCities_def emptyCity_def)
  have rome: "name (emptyCity ''Rome'') \<noteq> []
      \<and> name (emptyCity ''Rome'') \<notin> set (map name [paris]) \<and> length [paris] < 10"
    by (simp add: paris_def emptyCity_def)
  have eleven: "name (emptyCity ''City10'') \<noteq> []
      \<and> name (emptyCity ''City10'') \<notin> set (map name tenCities) \<and> 10 \<le> length tenCities"
    by (simp add: tenCities_def emptyCity_def)
  have noname: "name (emptyCity []) = []" by (simp add: emptyCity_def)
  note a = addOrUpdateCity_replace_append_or_limit [OF ne(1) alice refl]
  note e = addOrUpdateCity_replace_append_or_limit [OF ne(2) eve refl]
  from a [of "emptyCity []"] noname
  have 1: "addOrUpdateCity defaults (Some ''alice'') (Some (emptyCity [])) aliceFile =
       (Inl MissingName, aliceFile)" by blast
  from e [of cityThree] three
  have 2: "\<exists>i<length tenCities. name (tenCities ! i) = ''City3''
        \<and> addOrUpdateCity defaults (Some ''eve'') (Some cityThree) eveFile =
            (Inr (firstItems defaults cityThree),
             Some ((readData eveFile)
                (''eve'' \<mapsto> JCities (tenCities[i := firstItems defaults cityThree]),
                 ''latest'' \<mapsto> JCities (tenCities[i := firstItems defaults cityThree]))))"
    by (auto simp: cityThree_def)
  from a [of "emptyCity ''Rome''"] rome
  have 3: "addOrUpdateCity defaults (Some ''alice'') (Some (emptyCity ''Rome'')) aliceFile =
       (Inr (emptyCity ''Rome''),
        Some ((readData aliceFile)
           (''alice'' \<mapsto> JCities [paris, emptyCity ''Rome''],
            ''latest'' \<mapsto> JCities [paris, emptyCity ''Rome''])))"
    by (simp add: firstItems_defaults emptyCity_def orEmpty_def)
  from e [of "emptyCity ''City10''"] eleven
  have 4: "addOrUpdateCity defaults (Some ''eve'') (Some (emptyCity ''City10'')) eveFile =
       (Inl (CityLimitReached 10), eveFile)" by blast
  from ne alice eve 1 2 3 4 three rome eleven show ?thesis
    by (simp add: emptyCity_def)
qed

text \<open>The test \<open>enforces city limit\<close>: with ten cities stored, an eleventh with a new
  name is refused, although the user holds no more than 10 cities.\<close>

theorem addOrUpdateCity_at_ten_counterexample:
  "length tenCities \<le> 10
   \<and> ''City10'' \<notin> set (map name tenCities)
   \<and> addOrUpdateCity defaults (Some ''eve'') (Some (emptyCity ''City10'')) eveFile =
       (Inl (CityLimitReached 10), eveFile)
   \<and> isl (fst (addOrUpdateCity defaults (Some ''eve'') (Some (emptyCity ''City10'')) eveFile))"
  by (simp add: addOrUpdateCity_def Let_def readData_def entry_def orEmpty_def eveFile_def
      tenCities_def emptyCity_def defaults_limits)

section \<open>Attractions and restaurants\<close>

lemma findIndex_eq: "findIndex (\<lambda>x. x = a) xs = - 1 \<longleftrightarrow> a \<notin> set xs"
  by (auto simp: findIndex_none)

lemma find_position:
  assumes "find P xs = Some c"
  shows "nat (findIndex P xs) < length xs" and "xs ! nat (findIndex P xs) = c" and "P c"
proof -
  from find_findIndex_Some [OF assms]
  have ne: "findIndex P xs \<noteq> - 1" and nth: "xs ! nat (findIndex P xs) = c" by simp_all
  from findIndex_found [OF ne] nth
  show "nat (findIndex P xs) < length xs" and "xs ! nat (findIndex P xs) = c" and "P c"
    by simp_all
qed

lemma find_entry:
  assumes "find P (orEmpty (entry data u)) = Some c"
  shows "entry data u = Some (orEmpty (entry data u))"
  using assms by (cases "entry data u") (simp_all add: orEmpty_def)

lemma addAttraction_unauthenticated:
  "addAttraction cfg None cityName attraction file = (Inl NotAuthenticated, file)"
  "addAttraction cfg (Some []) cityName attraction file = (Inl NotAuthenticated, file)"
  by (simp_all add: addAttraction_def)

lemma addAttraction_missing:
  "u \<noteq> [] \<Longrightarrow> addAttraction cfg (Some u) cityName None file = (Inl MissingAttraction, file)"
  "u \<noteq> [] \<Longrightarrow> addAttraction cfg (Some u) cityName (Some []) file = (Inl MissingAttraction, file)"
  by (simp_all add: addAttraction_def)

lemma addAttraction_not_found:
  assumes "u \<noteq> []" and "a \<noteq> []"
    and "find (\<lambda>x. name x = cityName) (orEmpty (entry (readData file) u)) = None"
  shows "addAttraction cfg (Some u) cityName (Some a) file = (Inl CityNotFound, file)"
  using assms by (simp add: addAttraction_def)

lemma addAttraction_found:
  assumes "u \<noteq> []" and "a \<noteq> []"
    and "cs = orEmpty (entry (readData file) u)"
    and "find (\<lambda>x. name x = cityName) cs = Some c"
    and "as = orEmpty (attractions c)"
    and "c' = c\<lparr>attractions := Some (if a \<in> set as then as else as @ [a])\<rparr>"
    and "cs' = cs[nat (findIndex (\<lambda>x. name x = cityName) cs) := c']"
  shows "addAttraction cfg (Some u) cityName (Some a) file =
           (if maxAttractionsPerCity cfg \<le> int (length as)
            then (Inl (AttractionLimitReached (maxAttractionsPerCity cfg)), file)
            else (Inr c', Some ((readData file)(u \<mapsto> JCities cs', ''latest'' \<mapsto> JCities cs'))))"
  using assms by (auto simp: addAttraction_def Let_def writeData_def findIndex_eq)

lemma addRestaurant_unauthenticated:
  "addRestaurant cfg None cityName restaurant file = (Inl NotAuthenticated, file)"
  "addRestaurant cfg (Some []) cityName restaurant file = (Inl NotAuthenticated, file)"
  by (simp_all add: addRestaurant_def)

lemma addRestaurant_missing:
  "u \<noteq> [] \<Longrightarrow> addRestaurant cfg (Some u) cityName None file = (Inl MissingRestaurant, file)"
  "u \<noteq> [] \<Longrightarrow> addRestaurant cfg (Some u) cityName (Some []) file = (Inl MissingRestaurant, file)"
  by (simp_all add: addRestaurant_def)

lemma addRestaurant_not_found:
  assumes "u \<noteq> []" and "r \<noteq> []"
    and "find (\<lambda>x. name x = cityName) (orEmpty (entry (readData file) u)) = None"
  shows "addRestaurant cfg (Some u) cityName (Some r) file = (Inl CityNotFound, file)"
  using assms by (simp add: addRestaurant_def)

lemma addRestaurant_found:
  assumes "u \<noteq> []" and "r \<noteq> []"
    and "cs = orEmpty (entry (readData file) u)"
    and "find (\<lambda>x. name x = cityName) cs = Some c"
    and "rs = orEmpty (restaurants c)"
    and "c' = c\<lparr>restaurants := Some (if r \<in> set rs then rs else rs @ [r])\<rparr>"
    and "cs' = cs[nat (findIndex (\<lambda>x. name x = cityName) cs) := c']"
  shows "addRestaurant cfg (Some u) cityName (Some r) file =
           (if maxRestaurantsPerCity cfg \<le> int (length rs)
            then (Inl (RestaurantLimitReached (maxRestaurantsPerCity cfg)), file)
            else (Inr c', Some ((readData file)(u \<mapsto> JCities cs', ''latest'' \<mapsto> JCities cs'))))"
  using assms by (auto simp: addRestaurant_def Let_def writeData_def findIndex_eq)

lemma deleteAttraction_unauthenticated:
  "deleteAttraction None cityName a file = (Inl NotAuthenticated, file)"
  "deleteAttraction (Some []) cityName a file = (Inl NotAuthenticated, file)"
  by (simp_all add: deleteAttraction_def)

lemma deleteAttraction_not_found:
  assumes "u \<noteq> []"
    and "find (\<lambda>x. name x = cityName) (orEmpty (entry (readData file) u)) = None"
  shows "deleteAttraction (Some u) cityName a file = (Inl CityNotFound, file)"
  using assms by (simp add: deleteAttraction_def)

lemma deleteAttraction_found:
  assumes "u \<noteq> []"
    and "cs = orEmpty (entry (readData file) u)"
    and "find (\<lambda>x. name x = cityName) cs = Some c"
    and "c' = c\<lparr>attractions := Some (filter (\<lambda>x. x \<noteq> a) (orEmpty (attractions c)))\<rparr>"
    and "cs' = cs[nat (findIndex (\<lambda>x. name x = cityName) cs) := c']"
  shows "deleteAttraction (Some u) cityName a file =
           (Inr c', Some ((readData file)(u \<mapsto> JCities cs', ''latest'' \<mapsto> JCities cs')))"
  using assms by (simp add: deleteAttraction_def Let_def writeData_def)

lemma deleteRestaurant_unauthenticated:
  "deleteRestaurant None cityName r file = (Inl NotAuthenticated, file)"
  "deleteRestaurant (Some []) cityName r file = (Inl NotAuthenticated, file)"
  by (simp_all add: deleteRestaurant_def)

lemma deleteRestaurant_not_found:
  assumes "u \<noteq> []"
    and "find (\<lambda>x. name x = cityName) (orEmpty (entry (readData file) u)) = None"
  shows "deleteRestaurant (Some u) cityName r file = (Inl CityNotFound, file)"
  using assms by (simp add: deleteRestaurant_def)

lemma deleteRestaurant_found:
  assumes "u \<noteq> []"
    and "cs = orEmpty (entry (readData file) u)"
    and "find (\<lambda>x. name x = cityName) cs = Some c"
    and "c' = c\<lparr>restaurants := Some (filter (\<lambda>x. x \<noteq> r) (orEmpty (restaurants c)))\<rparr>"
    and "cs' = cs[nat (findIndex (\<lambda>x. name x = cityName) cs) := c']"
  shows "deleteRestaurant (Some u) cityName r file =
           (Inr c', Some ((readData file)(u \<mapsto> JCities cs', ''latest'' \<mapsto> JCities cs')))"
  using assms by (simp add: deleteRestaurant_def Let_def writeData_def)

section \<open>Deleting a city\<close>

lemma deleteCity_unauthenticated:
  "deleteCity None cityName file = (Inl NotAuthenticated, file)"
  "deleteCity (Some []) cityName file = (Inl NotAuthenticated, file)"
  by (simp_all add: deleteCity_def)

lemma deleteCity_no_list:
  assumes "u \<noteq> []" and "entry (readData file) u = None"
  shows "deleteCity (Some u) cityName file = (Inl NoCitiesForUser, file)"
  using assms by (simp add: deleteCity_def)

lemma deleteCity_list:
  assumes "u \<noteq> []" and "entry (readData file) u = Some cs"
    and "cs' = filter (\<lambda>c. name c \<noteq> cityName) cs"
  shows "deleteCity (Some u) cityName file =
           (Inr ''City deleted'',
            Some ((readData file)(u \<mapsto> JCities cs', ''latest'' \<mapsto> JCities cs')))"
  using assms by (simp add: deleteCity_def Let_def writeData_def)

text \<open>
  Claim C4. For a session user and a non-empty attraction, under the default limits:
  \<open>addAttraction\<close> answers \<open>CityNotFound\<close> and leaves the data file as it is
  when no city of the user's list has the given name; for the first city of that
  name, it answers \<open>AttractionLimitReached\<close> and leaves the data file as it is when
  the city holds 5 attractions or more; otherwise it appends the attraction when no
  stored attraction is the same string, and changes neither the city nor the list
  when one is; in both cases it answers with the city, stores the user's list also as
  \<open>latest\<close> and writes the data file. \<open>addRestaurant\<close> does the same with the
  city's restaurants and \<open>RestaurantLimitReached\<close>.
\<close>

theorem addAttraction_addRestaurant_cases:
  assumes "u \<noteq> []" and "a \<noteq> []"
    and "cs = orEmpty (entry (readData file) u)"
  shows
    "(cityName \<notin> set (map name cs) \<longrightarrow>
        addAttraction defaults (Some u) cityName (Some a) file = (Inl CityNotFound, file)
      \<and> addRestaurant defaults (Some u) cityName (Some a) file = (Inl CityNotFound, file))
   \<and> (\<forall>c. find (\<lambda>x. name x = cityName) cs = Some c \<longrightarrow>
        (5 \<le> length (orEmpty (attractions c)) \<longrightarrow>
           addAttraction defaults (Some u) cityName (Some a) file =
             (Inl (AttractionLimitReached 5), file))
      \<and> (length (orEmpty (attractions c)) < 5 \<and> a \<notin> set (orEmpty (attractions c)) \<longrightarrow>
           (\<exists>i<length cs. cs ! i = c
              \<and> addAttraction defaults (Some u) cityName (Some a) file =
                  (Inr (c\<lparr>attractions := Some (orEmpty (attractions c) @ [a])\<rparr>),
                   Some ((readData file)
                     (u \<mapsto> JCities (cs[i := c\<lparr>attractions := Some (orEmpty (attractions c) @ [a])\<rparr>]),
                      ''latest'' \<mapsto>
                        JCities (cs[i := c\<lparr>attractions := Some (orEmpty (attractions c) @ [a])\<rparr>]))))))
      \<and> (length (orEmpty (attractions c)) < 5 \<and> a \<in> set (orEmpty (attractions c)) \<longrightarrow>
           addAttraction defaults (Some u) cityName (Some a) file =
             (Inr c, Some ((readData file)(u \<mapsto> JCities cs, ''latest'' \<mapsto> JCities cs))))
      \<and> (5 \<le> length (orEmpty (restaurants c)) \<longrightarrow>
           addRestaurant defaults (Some u) cityName (Some a) file =
             (Inl (RestaurantLimitReached 5), file))
      \<and> (length (orEmpty (restaurants c)) < 5 \<and> a \<notin> set (orEmpty (restaurants c)) \<longrightarrow>
           (\<exists>i<length cs. cs ! i = c
              \<and> addRestaurant defaults (Some u) cityName (Some a) file =
                  (Inr (c\<lparr>restaurants := Some (orEmpty (restaurants c) @ [a])\<rparr>),
                   Some ((readData file)
                     (u \<mapsto> JCities (cs[i := c\<lparr>restaurants := Some (orEmpty (restaurants c) @ [a])\<rparr>]),
                      ''latest'' \<mapsto>
                        JCities (cs[i := c\<lparr>restaurants := Some (orEmpty (restaurants c) @ [a])\<rparr>]))))))
      \<and> (length (orEmpty (restaurants c)) < 5 \<and> a \<in> set (orEmpty (restaurants c)) \<longrightarrow>
           addRestaurant defaults (Some u) cityName (Some a) file =
             (Inr c, Some ((readData file)(u \<mapsto> JCities cs, ''latest'' \<mapsto> JCities cs)))))"
proof (intro conjI allI impI)
  let ?P = "\<lambda>x::city. name x = cityName"
  assume "cityName \<notin> set (map name cs)"
  then have "findIndex ?P cs = - 1" by (simp add: findIndex_field)
  then have none: "find ?P (orEmpty (entry (readData file) u)) = None"
    by (simp add: find_findIndex_None assms(3))
  from assms(1,2) none
  show "addAttraction defaults (Some u) cityName (Some a) file = (Inl CityNotFound, file)"
    by (rule addAttraction_not_found)
  from assms(1,2) none
  show "addRestaurant defaults (Some u) cityName (Some a) file = (Inl CityNotFound, file)"
    by (rule addRestaurant_not_found)
next
  fix c
  assume f: "find (\<lambda>x. name x = cityName) cs = Some c"
    and "5 \<le> length (orEmpty (attractions c))"
  with addAttraction_found [OF assms f refl refl refl, of defaults]
  show "addAttraction defaults (Some u) cityName (Some a) file =
          (Inl (AttractionLimitReached 5), file)"
    by (simp add: defaults_limits)
next
  fix c
  let ?i = "nat (findIndex (\<lambda>x. name x = cityName) cs)"
  assume f: "find (\<lambda>x. name x = cityName) cs = Some c"
    and b: "length (orEmpty (attractions c)) < 5 \<and> a \<notin> set (orEmpty (attractions c))"
  from find_position [OF f] have i: "?i < length cs" "cs ! ?i = c" by simp_all
  from b addAttraction_found [OF assms f refl refl refl, of defaults]
  have "addAttraction defaults (Some u) cityName (Some a) file =
      (Inr (c\<lparr>attractions := Some (orEmpty (attractions c) @ [a])\<rparr>),
       Some ((readData file)
         (u \<mapsto> JCities (cs[?i := c\<lparr>attractions := Some (orEmpty (attractions c) @ [a])\<rparr>]),
          ''latest'' \<mapsto>
            JCities (cs[?i := c\<lparr>attractions := Some (orEmpty (attractions c) @ [a])\<rparr>]))))"
    by (simp add: defaults_limits)
  with i
  show "\<exists>i<length cs. cs ! i = c
      \<and> addAttraction defaults (Some u) cityName (Some a) file =
          (Inr (c\<lparr>attractions := Some (orEmpty (attractions c) @ [a])\<rparr>),
           Some ((readData file)
             (u \<mapsto> JCities (cs[i := c\<lparr>attractions := Some (orEmpty (attractions c) @ [a])\<rparr>]),
              ''latest'' \<mapsto>
                JCities (cs[i := c\<lparr>attractions := Some (orEmpty (attractions c) @ [a])\<rparr>]))))"
    by blast
next
  fix c
  let ?i = "nat (findIndex (\<lambda>x. name x = cityName) cs)"
  assume f: "find (\<lambda>x. name x = cityName) cs = Some c"
    and b: "length (orEmpty (attractions c)) < 5 \<and> a \<in> set (orEmpty (attractions c))"
  from find_position [OF f] have i: "?i < length cs" "cs ! ?i = c" by simp_all
  from b have same: "c\<lparr>attractions := Some (orEmpty (attractions c))\<rparr> = c"
    by (cases "attractions c") (simp_all add: orEmpty_def)
  from i have "cs[?i := c] = cs" by (simp add: list_update_same_conv)
  with b same addAttraction_found [OF assms f refl refl refl, of defaults]
  show "addAttraction defaults (Some u) cityName (Some a) file =
          (Inr c, Some ((readData file)(u \<mapsto> JCities cs, ''latest'' \<mapsto> JCities cs)))"
    by (simp add: defaults_limits)
next
  fix c
  assume f: "find (\<lambda>x. name x = cityName) cs = Some c"
    and "5 \<le> length (orEmpty (restaurants c))"
  with addRestaurant_found [OF assms f refl refl refl, of defaults]
  show "addRestaurant defaults (Some u) cityName (Some a) file =
          (Inl (RestaurantLimitReached 5), file)"
    by (simp add: defaults_limits)
next
  fix c
  let ?i = "nat (findIndex (\<lambda>x. name x = cityName) cs)"
  assume f: "find (\<lambda>x. name x = cityName) cs = Some c"
    and b: "length (orEmpty (restaurants c)) < 5 \<and> a \<notin> set (orEmpty (restaurants c))"
  from find_position [OF f] have i: "?i < length cs" "cs ! ?i = c" by simp_all
  from b addRestaurant_found [OF assms f refl refl refl, of defaults]
  have "addRestaurant defaults (Some u) cityName (Some a) file =
      (Inr (c\<lparr>restaurants := Some (orEmpty (restaurants c) @ [a])\<rparr>),
       Some ((readData file)
         (u \<mapsto> JCities (cs[?i := c\<lparr>restaurants := Some (orEmpty (restaurants c) @ [a])\<rparr>]),
          ''latest'' \<mapsto>
            JCities (cs[?i := c\<lparr>restaurants := Some (orEmpty (restaurants c) @ [a])\<rparr>]))))"
    by (simp add: defaults_limits)
  with i
  show "\<exists>i<length cs. cs ! i = c
      \<and> addRestaurant defaults (Some u) cityName (Some a) file =
          (Inr (c\<lparr>restaurants := Some (orEmpty (restaurants c) @ [a])\<rparr>),
           Some ((readData file)
             (u \<mapsto> JCities (cs[i := c\<lparr>restaurants := Some (orEmpty (restaurants c) @ [a])\<rparr>]),
              ''latest'' \<mapsto>
                JCities (cs[i := c\<lparr>restaurants := Some (orEmpty (restaurants c) @ [a])\<rparr>]))))"
    by blast
next
  fix c
  let ?i = "nat (findIndex (\<lambda>x. name x = cityName) cs)"
  assume f: "find (\<lambda>x. name x = cityName) cs = Some c"
    and b: "length (orEmpty (restaurants c)) < 5 \<and> a \<in> set (orEmpty (restaurants c))"
  from find_position [OF f] have i: "?i < length cs" "cs ! ?i = c" by simp_all
  from b have same: "c\<lparr>restaurants := Some (orEmpty (restaurants c))\<rparr> = c"
    by (cases "restaurants c") (simp_all add: orEmpty_def)
  from i have "cs[?i := c] = cs" by (simp add: list_update_same_conv)
  with b same addRestaurant_found [OF assms f refl refl refl, of defaults]
  show "addRestaurant defaults (Some u) cityName (Some a) file =
          (Inr c, Some ((readData file)(u \<mapsto> JCities cs, ''latest'' \<mapsto> JCities cs)))"
    by (simp add: defaults_limits)
qed

text \<open>The theorem at stored lists from the tests: Berlin is not among carol's cities;
  frank's Rome already holds five attractions and five restaurants; \<open>colosseum\<close> is
  a new attraction beside \<open>Colosseum\<close>, and \<open>Colosseum\<close> itself changes
  nothing but \<open>latest\<close>.\<close>

theorem addAttraction_addRestaurant_cases_witness:
  "''carol'' \<noteq> [] \<and> ''frank'' \<noteq> []
   \<and> [rome] = orEmpty (entry (readData carolFile) ''carol'')
   \<and> [fullRome] = orEmpty (entry (readData frankFile) ''frank'')
   \<and> ''Berlin'' \<notin> set (map name [rome])
   \<and> addAttraction defaults (Some ''carol'') ''Berlin'' (Some ''Wall'') carolFile =
       (Inl CityNotFound, carolFile)
   \<and> addRestaurant defaults (Some ''carol'') ''Berlin'' (Some ''Wall'') carolFile =
       (Inl CityNotFound, carolFile)
   \<and> find (\<lambda>x. name x = ''Rome'') [fullRome] = Some fullRome
   \<and> addAttraction defaults (Some ''frank'') ''Rome'' (Some ''Attraction5'') frankFile =
       (Inl (AttractionLimitReached 5), frankFile)
   \<and> addRestaurant defaults (Some ''frank'') ''Rome'' (Some ''Restaurant5'') frankFile =
       (Inl (RestaurantLimitReached 5), frankFile)
   \<and> find (\<lambda>x. name x = ''Rome'') [rome] = Some rome
   \<and> addAttraction defaults (Some ''carol'') ''Rome'' (Some ''colosseum'') carolFile =
       (Inr (rome\<lparr>attractions := Some [''Colosseum'', ''colosseum'']\<rparr>),
        Some ((readData carolFile)
          (''carol'' \<mapsto> JCities [rome\<lparr>attractions := Some [''Colosseum'', ''colosseum'']\<rparr>],
           ''latest'' \<mapsto> JCities [rome\<lparr>attractions := Some [''Colosseum'', ''colosseum'']\<rparr>])))
   \<and> addAttraction defaults (Some ''carol'') ''Rome'' (Some ''Colosseum'') carolFile =
       (Inr rome,
        Some ((readData carolFile)(''carol'' \<mapsto> JCities [rome], ''latest'' \<mapsto> JCities [rome])))
   \<and> addRestaurant defaults (Some ''carol'') ''Rome'' (Some ''Curry 36'') carolFile =
       (Inr (rome\<lparr>restaurants := Some [''Roscioli'', ''Curry 36'']\<rparr>),
        Some ((readData carolFile)
          (''carol'' \<mapsto> JCities [rome\<lparr>restaurants := Some [''Roscioli'', ''Curry 36'']\<rparr>],
           ''latest'' \<mapsto> JCities [rome\<lparr>restaurants := Some [''Roscioli'', ''Curry 36'']\<rparr>])))
   \<and> addRestaurant defaults (Some ''carol'') ''Rome'' (Some ''Roscioli'') carolFile =
       (Inr rome,
        Some ((readData carolFile)(''carol'' \<mapsto> JCities [rome], ''latest'' \<mapsto> JCities [rome])))"
proof -
  have ne: "''carol'' \<noteq> []" "''frank'' \<noteq> []" by simp_all
  have carol: "[rome] = orEmpty (entry (readData carolFile) ''carol'')"
    by (simp add: carolFile_def readData_def entry_def orEmpty_def)
  have frank: "[fullRome] = orEmpty (entry (readData frankFile) ''frank'')"
    by (simp add: frankFile_def readData_def entry_def orEmpty_def)
  have berlin: "''Berlin'' \<notin> set (map name [rome])" by (simp add: rome_def)
  have fr: "find (\<lambda>x. name x = ''Rome'') [fullRome] = Some fullRome" by (simp add: fullRome_def)
  have cr: "find (\<lambda>x. name x = ''Rome'') [rome] = Some rome" by (simp add: rome_def)
  have full: "5 \<le> length (orEmpty (attractions fullRome))"
    "5 \<le> length (orEmpty (restaurants fullRome))"
    by (simp_all add: fullRome_def orEmpty_def)
  have as: "orEmpty (attractions rome) = [''Colosseum'']"
    and rs: "orEmpty (restaurants rome) = [''Roscioli'']"
    by (simp_all add: rome_def orEmpty_def)
  note c = addAttraction_addRestaurant_cases [OF ne(1) _ carol]
  note f = addAttraction_addRestaurant_cases [OF ne(2) _ frank]
  from c [of "''Wall''" "''Berlin''"] berlin
  have 1: "addAttraction defaults (Some ''carol'') ''Berlin'' (Some ''Wall'') carolFile =
             (Inl CityNotFound, carolFile)
         \<and> addRestaurant defaults (Some ''carol'') ''Berlin'' (Some ''Wall'') carolFile =
             (Inl CityNotFound, carolFile)"
    by simp
  from f [of "''Attraction5''" "''Rome''"] fr full
  have 2: "addAttraction defaults (Some ''frank'') ''Rome'' (Some ''Attraction5'') frankFile =
       (Inl (AttractionLimitReached 5), frankFile)"
    by simp
  from f [of "''Restaurant5''" "''Rome''"] fr full
  have 3: "addRestaurant defaults (Some ''frank'') ''Rome'' (Some ''Restaurant5'') frankFile =
       (Inl (RestaurantLimitReached 5), frankFile)"
    by simp
  from c [of "''colosseum''" "''Rome''"] cr as
  have 4: "addAttraction defaults (Some ''carol'') ''Rome'' (Some ''colosseum'') carolFile =
       (Inr (rome\<lparr>attractions := Some [''Colosseum'', ''colosseum'']\<rparr>),
        Some ((readData carolFile)
          (''carol'' \<mapsto> JCities [rome\<lparr>attractions := Some [''Colosseum'', ''colosseum'']\<rparr>],
           ''latest'' \<mapsto> JCities [rome\<lparr>attractions := Some [''Colosseum'', ''colosseum'']\<rparr>])))"
    by simp
  from c [of "''Colosseum''" "''Rome''"] cr as
  have 5: "addAttraction defaults (Some ''carol'') ''Rome'' (Some ''Colosseum'') carolFile =
       (Inr rome,
        Some ((readData carolFile)(''carol'' \<mapsto> JCities [rome], ''latest'' \<mapsto> JCities [rome])))"
    by simp
  from c [of "''Curry 36''" "''Rome''"] cr rs
  have 6: "addRestaurant defaults (Some ''carol'') ''Rome'' (Some ''Curry 36'') carolFile =
       (Inr (rome\<lparr>restaurants := Some [''Roscioli'', ''Curry 36'']\<rparr>),
        Some ((readData carolFile)
          (''carol'' \<mapsto> JCities [rome\<lparr>restaurants := Some [''Roscioli'', ''Curry 36'']\<rparr>],
           ''latest'' \<mapsto> JCities [rome\<lparr>restaurants := Some [''Roscioli'', ''Curry 36'']\<rparr>])))"
    by simp
  from c [of "''Roscioli''" "''Rome''"] cr rs
  have 7: "addRestaurant defaults (Some ''carol'') ''Rome'' (Some ''Roscioli'') carolFile =
       (Inr rome,
        Some ((readData carolFile)(''carol'' \<mapsto> JCities [rome], ''latest'' \<mapsto> JCities [rome])))"
    by simp
  from ne carol frank berlin fr cr 1 2 3 4 5 6 7 show ?thesis by blast
qed

text \<open>
  Claim C5. For a session user, \<open>deleteCity\<close> answers \<open>NoCitiesForUser\<close> and
  leaves the data file as it is when the user has no stored list; when the user has
  one, it succeeds, stores the list without the cities of the given name under the
  user and as \<open>latest\<close>, and writes the data file. No city of that name remains,
  and when none had that name the list is the same as before.
\<close>

theorem deleteCity_removes_or_no_list:
  assumes "u \<noteq> []"
  shows
    "(entry (readData file) u = None \<longrightarrow>
        deleteCity (Some u) cityName file = (Inl NoCitiesForUser, file))
   \<and> (\<forall>cs. entry (readData file) u = Some cs \<longrightarrow>
        deleteCity (Some u) cityName file =
          (Inr ''City deleted'',
           Some ((readData file)
             (u \<mapsto> JCities (filter (\<lambda>c. name c \<noteq> cityName) cs),
              ''latest'' \<mapsto> JCities (filter (\<lambda>c. name c \<noteq> cityName) cs))))
      \<and> cityName \<notin> set (map name (filter (\<lambda>c. name c \<noteq> cityName) cs))
      \<and> (cityName \<notin> set (map name cs) \<longrightarrow> filter (\<lambda>c. name c \<noteq> cityName) cs = cs))"
proof (intro conjI allI impI)
  assume "entry (readData file) u = None"
  with assms show "deleteCity (Some u) cityName file = (Inl NoCitiesForUser, file)"
    by (rule deleteCity_no_list)
next
  fix cs
  assume "entry (readData file) u = Some cs"
  with assms
  show "deleteCity (Some u) cityName file =
          (Inr ''City deleted'',
           Some ((readData file)
             (u \<mapsto> JCities (filter (\<lambda>c. name c \<noteq> cityName) cs),
              ''latest'' \<mapsto> JCities (filter (\<lambda>c. name c \<noteq> cityName) cs))))"
    by (simp add: deleteCity_list)
next
  fix cs :: "city list"
  show "cityName \<notin> set (map name (filter (\<lambda>c. name c \<noteq> cityName) cs))" by auto
next
  fix cs :: "city list"
  assume "cityName \<notin> set (map name cs)"
  then show "filter (\<lambda>c. name c \<noteq> cityName) cs = cs" by (induction cs) auto
qed

text \<open>The theorem at bob's stored list of the tests: London is deleted; deleting
  Madrid, which bob does not hold, succeeds and keeps the list; zed, who has no list,
  is refused.\<close>

theorem deleteCity_removes_or_no_list_witness:
  "''bob'' \<noteq> [] \<and> ''zed'' \<noteq> []
   \<and> entry (readData bobFile) ''bob'' = Some [london]
   \<and> entry (readData bobFile) ''zed'' = None
   \<and> deleteCity (Some ''bob'') ''London'' bobFile =
       (Inr ''City deleted'',
        Some ((readData bobFile)(''bob'' \<mapsto> JCities [], ''latest'' \<mapsto> JCities [])))
   \<and> ''Madrid'' \<notin> set (map name [london])
   \<and> deleteCity (Some ''bob'') ''Madrid'' bobFile =
       (Inr ''City deleted'',
        Some ((readData bobFile)(''bob'' \<mapsto> JCities [london], ''latest'' \<mapsto> JCities [london])))
   \<and> deleteCity (Some ''zed'') ''London'' bobFile = (Inl NoCitiesForUser, bobFile)"
proof -
  have ne: "''bob'' \<noteq> []" "''zed'' \<noteq> []" by simp_all
  have bob: "entry (readData bobFile) ''bob'' = Some [london]"
    by (simp add: bobFile_def readData_def entry_def)
  have zed: "entry (readData bobFile) ''zed'' = None"
    by (simp add: bobFile_def readData_def entry_def)
  have nm: "name london = ''London''" by (simp add: london_def emptyCity_def)
  from deleteCity_removes_or_no_list [OF ne(1), of bobFile "''London''"] bob nm
  have 1: "deleteCity (Some ''bob'') ''London'' bobFile =
       (Inr ''City deleted'',
        Some ((readData bobFile)(''bob'' \<mapsto> JCities [], ''latest'' \<mapsto> JCities [])))"
    by simp
  from deleteCity_removes_or_no_list [OF ne(1), of bobFile "''Madrid''"] bob nm
  have 2: "deleteCity (Some ''bob'') ''Madrid'' bobFile =
       (Inr ''City deleted'',
        Some ((readData bobFile)(''bob'' \<mapsto> JCities [london], ''latest'' \<mapsto> JCities [london])))"
    by simp
  from deleteCity_removes_or_no_list [OF ne(2), of bobFile "''London''"] zed
  have 3: "deleteCity (Some ''zed'') ''London'' bobFile = (Inl NoCitiesForUser, bobFile)"
    by simp
  from ne bob zed nm 1 2 3 show ?thesis by simp
qed

section \<open>What the handlers write\<close>

lemma listWithinLimits_Nil: "listWithinLimits []"
  by (simp add: listWithinLimits_def)

lemma listWithinLimits_update:
  assumes "listWithinLimits cs" and "cityWithinLimits c"
  shows "listWithinLimits (cs[i := c])"
proof -
  have "set (cs[i := c]) \<subseteq> insert c (set cs)" by (rule set_update_subset_insert)
  with assms show ?thesis by (auto simp: listWithinLimits_def)
qed

lemma listWithinLimits_append:
  assumes "listWithinLimits cs" and "cityWithinLimits c" and "length cs < 10"
  shows "listWithinLimits (cs @ [c])"
  using assms by (auto simp: listWithinLimits_def)

lemma listWithinLimits_filter: "listWithinLimits cs \<Longrightarrow> listWithinLimits (filter P cs)"
  by (auto simp: listWithinLimits_def intro: le_trans [OF length_filter_le])

lemma listWithinLimits_find:
  assumes "listWithinLimits cs" and "find P cs = Some c"
  shows "cityWithinLimits c"
proof -
  from find_position [OF assms(2)] have "c \<in> set cs" by (metis nth_mem)
  with assms(1) show ?thesis by (simp add: listWithinLimits_def)
qed

lemma cityWithinLimits_firstItems: "cityWithinLimits (firstItems defaults c)"
  by (simp add: firstItems_defaults cityWithinLimits_def orEmpty_def)

lemma keepsOrStores_error: "keepsOrStores who file (Inl e, file)"
  by (simp add: keepsOrStores_def)

lemma keepsOrStores_stored:
  assumes "u \<noteq> []"
    and "listWithinLimits (orEmpty (entry (readData file) u)) \<Longrightarrow> listWithinLimits cs'"
  shows "keepsOrStores (Some u) file
           (Inr r, Some ((readData file)(u \<mapsto> JCities cs', ''latest'' \<mapsto> JCities cs')))"
  using assms unfolding keepsOrStores_def by (intro disjI2 exI [of _ u] exI [of _ cs']) simp

lemma keepsOrStores_respond:
  "keepsOrStores who file out \<Longrightarrow> keepsOrStores who file (respond f out)"
  by (cases "fst out") (auto simp: keepsOrStores_def respond_def)

lemma addOrUpdateCity_keepsOrStores:
  "keepsOrStores who file (addOrUpdateCity defaults who body file)"
proof (cases "\<exists>u c. who = Some u \<and> u \<noteq> [] \<and> body = Some c \<and> name c \<noteq> []")
  case False
  then have "\<exists>e. addOrUpdateCity defaults who body file = (Inl e, file)"
    by (auto simp: addOrUpdateCity_def split: option.splits)
  then show ?thesis by (auto simp: keepsOrStores_error)
next
  case True
  then obtain u c where who: "who = Some u" and u: "u \<noteq> []"
    and body: "body = Some c" and c: "name c \<noteq> []" by blast
  define cs where "cs = orEmpty (entry (readData file) u)"
  let ?c' = "firstItems defaults c"
  show ?thesis
  proof (cases "name c \<in> set (map name cs)")
    case True
    define cs' where "cs' = cs[nat (findIndex (\<lambda>x. name x = name c) cs) := ?c']"
    have "addOrUpdateCity defaults (Some u) (Some c) file =
        (Inr ?c', Some ((readData file)(u \<mapsto> JCities cs', ''latest'' \<mapsto> JCities cs')))"
      using u c cs_def True cs'_def by (rule addOrUpdateCity_replace)
    moreover have "listWithinLimits cs \<Longrightarrow> listWithinLimits cs'"
      unfolding cs'_def by (simp add: listWithinLimits_update cityWithinLimits_firstItems)
    ultimately show ?thesis
      using u unfolding who body cs_def by (simp add: keepsOrStores_stored)
  next
    case False
    show ?thesis
    proof (cases "length cs < 10")
      case True
      define cs' where "cs' = cs @ [?c']"
      from True have "int (length cs) < maxCitiesPerUser defaults" by (simp add: defaults_limits)
      with u c cs_def False
      have "addOrUpdateCity defaults (Some u) (Some c) file =
          (Inr ?c', Some ((readData file)(u \<mapsto> JCities cs', ''latest'' \<mapsto> JCities cs')))"
        using cs'_def by (rule addOrUpdateCity_append)
      moreover have "listWithinLimits cs \<Longrightarrow> listWithinLimits cs'"
        unfolding cs'_def using True
        by (simp add: listWithinLimits_append cityWithinLimits_firstItems)
      ultimately show ?thesis
        using u unfolding who body cs_def by (simp add: keepsOrStores_stored)
    next
      case lim: False
      then have "maxCitiesPerUser defaults \<le> int (length cs)" by (simp add: defaults_limits)
      with u c cs_def False
      have "addOrUpdateCity defaults (Some u) (Some c) file =
          (Inl (CityLimitReached (maxCitiesPerUser defaults)), file)"
        by (rule addOrUpdateCity_limit)
      then show ?thesis unfolding who body by (simp add: keepsOrStores_error)
    qed
  qed
qed

lemma deleteCity_keepsOrStores: "keepsOrStores who file (deleteCity who cityName file)"
proof (cases "\<exists>u cs. who = Some u \<and> u \<noteq> [] \<and> entry (readData file) u = Some cs")
  case False
  then have "\<exists>e. deleteCity who cityName file = (Inl e, file)"
    by (auto simp: deleteCity_def split: option.splits)
  then show ?thesis by (auto simp: keepsOrStores_error)
next
  case True
  then obtain u cs where who: "who = Some u" and u: "u \<noteq> []"
    and cs: "entry (readData file) u = Some cs" by blast
  from cs have "listWithinLimits (orEmpty (entry (readData file) u)) \<Longrightarrow>
      listWithinLimits (filter (\<lambda>c. name c \<noteq> cityName) cs)"
    by (simp add: orEmpty_def listWithinLimits_filter)
  with u show ?thesis
    unfolding who by (simp add: deleteCity_list [OF u cs refl] keepsOrStores_stored)
qed

lemma addAttraction_keepsOrStores:
  "keepsOrStores who file (addAttraction defaults who cityName attraction file)"
proof (cases "\<exists>u a. who = Some u \<and> u \<noteq> [] \<and> attraction = Some a \<and> a \<noteq> []")
  case False
  then have "\<exists>e. addAttraction defaults who cityName attraction file = (Inl e, file)"
    by (auto simp: addAttraction_def split: option.splits)
  then show ?thesis by (auto simp: keepsOrStores_error)
next
  case True
  then obtain u a where who: "who = Some u" and u: "u \<noteq> []"
    and att: "attraction = Some a" and a: "a \<noteq> []" by blast
  define cs where "cs = orEmpty (entry (readData file) u)"
  show ?thesis
  proof (cases "find (\<lambda>x. name x = cityName) cs")
    case None
    with u a have "addAttraction defaults (Some u) cityName (Some a) file = (Inl CityNotFound, file)"
      unfolding cs_def by (rule addAttraction_not_found)
    then show ?thesis unfolding who att by (simp add: keepsOrStores_error)
  next
    case (Some c)
    define as where "as = orEmpty (attractions c)"
    define c' where "c' = c\<lparr>attractions := Some (if a \<in> set as then as else as @ [a])\<rparr>"
    define cs' where "cs' = cs[nat (findIndex (\<lambda>x. name x = cityName) cs) := c']"
    note run = addAttraction_found [OF u a cs_def Some as_def c'_def cs'_def, of defaults]
    show ?thesis
    proof (cases "5 \<le> length as")
      case True
      with run show ?thesis unfolding who att by (simp add: defaults_limits keepsOrStores_error)
    next
      case False
      have "listWithinLimits cs'" if ok: "listWithinLimits cs"
      proof -
        from ok Some have "cityWithinLimits c" by (rule listWithinLimits_find)
        with False have "cityWithinLimits c'"
          by (simp add: c'_def cityWithinLimits_def orEmpty_def as_def)
        with ok show ?thesis unfolding cs'_def by (rule listWithinLimits_update)
      qed
      with False run u show ?thesis
        unfolding who att cs_def by (simp add: defaults_limits keepsOrStores_stored)
    qed
  qed
qed

lemma addRestaurant_keepsOrStores:
  "keepsOrStores who file (addRestaurant defaults who cityName restaurant file)"
proof (cases "\<exists>u r. who = Some u \<and> u \<noteq> [] \<and> restaurant = Some r \<and> r \<noteq> []")
  case False
  then have "\<exists>e. addRestaurant defaults who cityName restaurant file = (Inl e, file)"
    by (auto simp: addRestaurant_def split: option.splits)
  then show ?thesis by (auto simp: keepsOrStores_error)
next
  case True
  then obtain u r where who: "who = Some u" and u: "u \<noteq> []"
    and res: "restaurant = Some r" and r: "r \<noteq> []" by blast
  define cs where "cs = orEmpty (entry (readData file) u)"
  show ?thesis
  proof (cases "find (\<lambda>x. name x = cityName) cs")
    case None
    with u r have "addRestaurant defaults (Some u) cityName (Some r) file = (Inl CityNotFound, file)"
      unfolding cs_def by (rule addRestaurant_not_found)
    then show ?thesis unfolding who res by (simp add: keepsOrStores_error)
  next
    case (Some c)
    define rs where "rs = orEmpty (restaurants c)"
    define c' where "c' = c\<lparr>restaurants := Some (if r \<in> set rs then rs else rs @ [r])\<rparr>"
    define cs' where "cs' = cs[nat (findIndex (\<lambda>x. name x = cityName) cs) := c']"
    note run = addRestaurant_found [OF u r cs_def Some rs_def c'_def cs'_def, of defaults]
    show ?thesis
    proof (cases "5 \<le> length rs")
      case True
      with run show ?thesis unfolding who res by (simp add: defaults_limits keepsOrStores_error)
    next
      case False
      have "listWithinLimits cs'" if ok: "listWithinLimits cs"
      proof -
        from ok Some have "cityWithinLimits c" by (rule listWithinLimits_find)
        with False have "cityWithinLimits c'"
          by (simp add: c'_def cityWithinLimits_def orEmpty_def rs_def)
        with ok show ?thesis unfolding cs'_def by (rule listWithinLimits_update)
      qed
      with False run u show ?thesis
        unfolding who res cs_def by (simp add: defaults_limits keepsOrStores_stored)
    qed
  qed
qed

lemma deleteAttraction_keepsOrStores:
  "keepsOrStores who file (deleteAttraction who cityName a file)"
proof (cases "\<exists>u. who = Some u \<and> u \<noteq> []")
  case False
  then have "\<exists>e. deleteAttraction who cityName a file = (Inl e, file)"
    by (auto simp: deleteAttraction_def split: option.splits)
  then show ?thesis by (auto simp: keepsOrStores_error)
next
  case True
  then obtain u where who: "who = Some u" and u: "u \<noteq> []" by blast
  define cs where "cs = orEmpty (entry (readData file) u)"
  show ?thesis
  proof (cases "find (\<lambda>x. name x = cityName) cs")
    case None
    with u have "deleteAttraction (Some u) cityName a file = (Inl CityNotFound, file)"
      unfolding cs_def by (rule deleteAttraction_not_found)
    then show ?thesis unfolding who by (simp add: keepsOrStores_error)
  next
    case (Some c)
    define c' where
      "c' = c\<lparr>attractions := Some (filter (\<lambda>x. x \<noteq> a) (orEmpty (attractions c)))\<rparr>"
    define cs' where "cs' = cs[nat (findIndex (\<lambda>x. name x = cityName) cs) := c']"
    note run = deleteAttraction_found [OF u cs_def Some c'_def cs'_def]
    have "listWithinLimits cs'" if ok: "listWithinLimits cs"
    proof -
      from ok Some have "cityWithinLimits c" by (rule listWithinLimits_find)
      then have "cityWithinLimits c'"
        by (auto simp: c'_def cityWithinLimits_def orEmpty_def intro: le_trans [OF length_filter_le])
      with ok show ?thesis unfolding cs'_def by (rule listWithinLimits_update)
    qed
    with run u show ?thesis unfolding who cs_def by (simp add: keepsOrStores_stored)
  qed
qed

lemma deleteRestaurant_keepsOrStores:
  "keepsOrStores who file (deleteRestaurant who cityName r file)"
proof (cases "\<exists>u. who = Some u \<and> u \<noteq> []")
  case False
  then have "\<exists>e. deleteRestaurant who cityName r file = (Inl e, file)"
    by (auto simp: deleteRestaurant_def split: option.splits)
  then show ?thesis by (auto simp: keepsOrStores_error)
next
  case True
  then obtain u where who: "who = Some u" and u: "u \<noteq> []" by blast
  define cs where "cs = orEmpty (entry (readData file) u)"
  show ?thesis
  proof (cases "find (\<lambda>x. name x = cityName) cs")
    case None
    with u have "deleteRestaurant (Some u) cityName r file = (Inl CityNotFound, file)"
      unfolding cs_def by (rule deleteRestaurant_not_found)
    then show ?thesis unfolding who by (simp add: keepsOrStores_error)
  next
    case (Some c)
    define c' where
      "c' = c\<lparr>restaurants := Some (filter (\<lambda>x. x \<noteq> r) (orEmpty (restaurants c)))\<rparr>"
    define cs' where "cs' = cs[nat (findIndex (\<lambda>x. name x = cityName) cs) := c']"
    note run = deleteRestaurant_found [OF u cs_def Some c'_def cs'_def]
    have "listWithinLimits cs'" if ok: "listWithinLimits cs"
    proof -
      from ok Some have "cityWithinLimits c" by (rule listWithinLimits_find)
      then have "cityWithinLimits c'"
        by (auto simp: c'_def cityWithinLimits_def orEmpty_def intro: le_trans [OF length_filter_le])
      with ok show ?thesis unfolding cs'_def by (rule listWithinLimits_update)
    qed
    with run u show ?thesis unfolding who cs_def by (simp add: keepsOrStores_stored)
  qed
qed

lemma router_keepsOrStores:
  "req \<noteq> GetCities \<Longrightarrow> keepsOrStores who file (router defaults who req file)"
  by (cases req)
    (simp_all add: keepsOrStores_respond addOrUpdateCity_keepsOrStores deleteCity_keepsOrStores
      addAttraction_keepsOrStores addRestaurant_keepsOrStores deleteAttraction_keepsOrStores
      deleteRestaurant_keepsOrStores)

lemma router_GetCities: "snd (router cfg who GetCities file) = file"
  by (simp add: respond_def listCities_def)

section \<open>The limits are kept, and latest follows the last writer\<close>

lemma usersWithinLimits_entry:
  "usersWithinLimits data \<Longrightarrow> u \<noteq> ''latest'' \<Longrightarrow> listWithinLimits (orEmpty (entry data u))"
  by (auto simp: usersWithinLimits_def entry_def orEmpty_def listWithinLimits_Nil
      split: option.splits jsonval.splits)

lemma latestWithinLimits_entry:
  "latestWithinLimits data \<Longrightarrow> listWithinLimits (orEmpty (entry data ''latest''))"
  by (auto simp: latestWithinLimits_def entry_def orEmpty_def listWithinLimits_Nil
      split: option.splits jsonval.splits)

lemma readData_Some: "readData (Some data) = data"
  by (simp add: readData_def)

text \<open>
  Claim C7. Whatever request the city router serves under the default limits, for
  whichever session user: if every list stored under a username holds at most 10
  cities, each with at most 5 attractions and at most 5 restaurants, the same is true
  of the data file the request leaves behind; and if the \<open>latest\<close> snapshot is
  within these limits too, it stays within them.
\<close>

theorem router_preserves_limits:
  "(usersWithinLimits (readData file) \<longrightarrow>
      usersWithinLimits (readData (snd (router defaults who req file))))
   \<and> (usersWithinLimits (readData file) \<and> latestWithinLimits (readData file) \<longrightarrow>
      latestWithinLimits (readData (snd (router defaults who req file))))"
proof (cases "req = GetCities")
  case True
  have "snd (router defaults who GetCities file) = file" by (rule router_GetCities)
  with True show ?thesis by simp
next
  case False
  then have k: "keepsOrStores who file (router defaults who req file)"
    by (rule router_keepsOrStores)
  show ?thesis
  proof (cases "snd (router defaults who req file) = file")
    case True
    then show ?thesis by simp
  next
    case changed: False
    with k obtain u cs' where u: "who = Some u" "u \<noteq> []"
      and out: "snd (router defaults who req file) =
          Some ((readData file)(u \<mapsto> JCities cs', ''latest'' \<mapsto> JCities cs'))"
      and step: "listWithinLimits (orEmpty (entry (readData file) u)) \<longrightarrow> listWithinLimits cs'"
      unfolding keepsOrStores_def by blast
    show ?thesis
    proof (intro conjI impI)
      assume inv: "usersWithinLimits (readData file)"
      show "usersWithinLimits (readData (snd (router defaults who req file)))"
        unfolding out readData_Some usersWithinLimits_def
      proof (intro allI impI)
        fix key cs
        assume a: "key \<noteq> ''latest'' \<and>
          ((readData file)(u \<mapsto> JCities cs', ''latest'' \<mapsto> JCities cs')) key = Some (JCities cs)"
        show "listWithinLimits cs"
        proof (cases "key = u")
          case True
          with a have "u \<noteq> ''latest''" and "cs = cs'" by auto
          with inv step usersWithinLimits_entry [of "readData file" u] show ?thesis by simp
        next
          case False
          with a have "readData file key = Some (JCities cs)" by auto
          with inv a show ?thesis unfolding usersWithinLimits_def by blast
        qed
      qed
    next
      assume inv: "usersWithinLimits (readData file) \<and> latestWithinLimits (readData file)"
      have "listWithinLimits (orEmpty (entry (readData file) u))"
      proof (cases "u = ''latest''")
        case True
        with inv show ?thesis by (simp add: latestWithinLimits_entry)
      next
        case False
        with inv show ?thesis by (simp add: usersWithinLimits_entry)
      qed
      with step have "listWithinLimits cs'" by simp
      then show "latestWithinLimits (readData (snd (router defaults who req file)))"
        unfolding out readData_Some latestWithinLimits_def by simp
    qed
  qed
qed

text \<open>carol's stored Rome holds one attraction; after she adds a second one both the
  lists and the snapshot are within the limits as before.\<close>

theorem router_preserves_limits_witness:
  "usersWithinLimits (readData carolFile) \<and> latestWithinLimits (readData carolFile)
   \<and> snd (router defaults (Some ''carol'') (PostAttraction ''Rome'' (Some ''Trevi'')) carolFile)
       \<noteq> carolFile
   \<and> usersWithinLimits
       (readData (snd (router defaults (Some ''carol'') (PostAttraction ''Rome'' (Some ''Trevi''))
          carolFile)))
   \<and> latestWithinLimits
       (readData (snd (router defaults (Some ''carol'') (PostAttraction ''Rome'' (Some ''Trevi''))
          carolFile)))"
proof -
  have u: "usersWithinLimits (readData carolFile)"
    by (auto simp: usersWithinLimits_def listWithinLimits_def cityWithinLimits_def carolFile_def
        readData_def rome_def orEmpty_def split: if_splits)
  have l: "latestWithinLimits (readData carolFile)"
    by (simp add: latestWithinLimits_def listWithinLimits_def cityWithinLimits_def carolFile_def
        readData_def paris_def emptyCity_def orEmpty_def)
  have c: "snd (router defaults (Some ''carol'') (PostAttraction ''Rome'' (Some ''Trevi'')) carolFile)
       \<noteq> carolFile"
  proof
    assume "snd (router defaults (Some ''carol'') (PostAttraction ''Rome'' (Some ''Trevi'')) carolFile)
       = carolFile"
    then have "entry (readData (snd (router defaults (Some ''carol'')
        (PostAttraction ''Rome'' (Some ''Trevi'')) carolFile))) ''latest'' = Some [paris]"
      by (simp add: carolFile_def readData_def entry_def)
    then show False
      by (simp add: respond_def addAttraction_def Let_def defaults_limits carolFile_def
          readData_def entry_def orEmpty_def writeData_def rome_def paris_def emptyCity_def)
  qed
  from router_preserves_limits
    [of carolFile "Some ''carol''" "PostAttraction ''Rome'' (Some ''Trevi'')"] u l c
  show ?thesis by simp
qed

section \<open>Listing without an entry\<close>

lemma getUserCities_no_entry:
  assumes "entry (readData file) u = None"
  shows "getUserCities cfg file (Some u) = getUserCities cfg file None"
  using assms by (simp add: getUserCities_def userEntry_def Let_def)

lemma drop_last_Nil: "0 < n \<Longrightarrow> drop (length xs - n) xs = [] \<longleftrightarrow> xs = []"
  by (cases xs) auto

text \<open>
  Claim C10, amended. For a session user who has no entry in the stored database,
  \<open>listCities\<close> under the default limits answers exactly as it does without a
  session user: with the \<open>latest\<close> snapshot cut to its last 10 cities, each
  with its last 5 attractions and restaurants. The answer is the empty list exactly
  when the snapshot is missing, \<open>null\<close> or empty.
\<close>

theorem listCities_falls_back_to_latest:
  assumes "entry (readData file) u = None"
    and "snapshot = orEmpty (entry (readData file) ''latest'')"
  shows "listCities defaults (Some u) file = listCities defaults None file
       \<and> listCities defaults (Some u) file =
           (Inr (map (lastItems defaults) (drop (length snapshot - 10) snapshot)), file)
       \<and> (fst (listCities defaults (Some u) file) = Inr [] \<longleftrightarrow> snapshot = [])"
proof -
  from assms(1) have same: "getUserCities defaults file (Some u) = getUserCities defaults file None"
    by (rule getUserCities_no_entry)
  have guest: "getUserCities defaults file None =
      map (lastItems defaults) (drop (length snapshot - 10) snapshot)"
    unfolding assms(2) by (rule getUserCities_guest)
  have "drop (length snapshot - 10) snapshot = [] \<longleftrightarrow> snapshot = []"
    by (rule drop_last_Nil) simp
  with same guest show ?thesis by (simp add: listCities_def)
qed

text \<open>dave has no entry in the file of the listing tests: he is shown the snapshot,
  the test city with its last five attractions and restaurants, as a guest is.\<close>

theorem listCities_falls_back_to_latest_witness:
  "entry (readData lastcitiesFile) ''dave'' = None
   \<and> [testCity] = orEmpty (entry (readData lastcitiesFile) ''latest'')
   \<and> listCities defaults (Some ''dave'') lastcitiesFile = listCities defaults None lastcitiesFile
   \<and> listCities defaults (Some ''dave'') lastcitiesFile =
       (Inr [\<lparr>name = ''TestCity'',
               attractions = Some [''A2'', ''A3'', ''A4'', ''A5'', ''A6''],
               restaurants = Some [''R2'', ''R3'', ''R4'', ''R5'', ''R6'']\<rparr>], lastcitiesFile)
   \<and> fst (listCities defaults (Some ''dave'') lastcitiesFile) \<noteq> Inr []"
proof -
  have d: "entry (readData lastcitiesFile) ''dave'' = None"
    by (simp add: lastcitiesFile_def readData_def entry_def)
  have l: "[testCity] = orEmpty (entry (readData lastcitiesFile) ''latest'')"
    by (simp add: lastcitiesFile_def readData_def entry_def orEmpty_def)
  note fallback = listCities_falls_back_to_latest [OF d l]
  from fallback
  have 1: "listCities defaults (Some ''dave'') lastcitiesFile = listCities defaults None lastcitiesFile"
    by (rule conjunct1)
  from fallback [THEN conjunct2, THEN conjunct1]
  have 2: "listCities defaults (Some ''dave'') lastcitiesFile =
       (Inr [\<lparr>name = ''TestCity'',
               attractions = Some [''A2'', ''A3'', ''A4'', ''A5'', ''A6''],
               restaurants = Some [''R2'', ''R3'', ''R4'', ''R5'', ''R6'']\<rparr>], lastcitiesFile)"
    by (simp add: lastItems_defaults testCity_def orEmpty_def)
  from fallback
  have 3: "fst (listCities defaults (Some ''dave'') lastcitiesFile) \<noteq> Inr []"
    by blast
  from d l 1 2 3 show ?thesis by blast
qed

text \<open>The test \<open>returns empty\<close> with a session user: over the empty database
  \<open>{}\<close> alice has no entry, and her listing is the empty list.\<close>

theorem listCities_no_entry_empty_counterexample:
  "''alice'' \<noteq> []
   \<and> entry (readData (Some Map.empty)) ''alice'' = None
   \<and> listCities defaults (Some ''alice'') (Some Map.empty) = (Inr [], Some Map.empty)"
  by (simp add: listCities_def getUserCities_def userEntry_def readData_def entry_def
      slice_def defaults_limits)

section \<open>Registration and login\<close>

lemma isValidEmail_Nil: "\<not> isValidEmail []"
  by (simp add: isValidEmail_def emailPattern_def oneOrMore_def)

lemma register_invalid:
  assumes "\<not> isValidEmail u"
  shows "register (Some u) pw st =
           (Inl (if u = [] \<or> falsy pw then MissingCredentials else InvalidEmail), st)"
  using assms by (simp add: register_def falsy_def toText_def)

lemma login_invalid:
  assumes "\<not> isValidEmail u"
  shows "login (Some u) pw st = (Inl InvalidEmail, st)"
  using assms by (simp add: login_def toText_def)

lemma register_valid:
  assumes "isValidEmail u" and "p \<noteq> []"
  shows "register (Some u) (Some p) st =
           (if find (\<lambda>x. username x = u) (readUsers (users st)) \<noteq> None
            then (Inl UsernameTaken, st)
            else (Inr u,
                  st\<lparr>users := Some (readUsers (users st) @ [\<lparr>username = u, password = p\<rparr>]),
                     session := Some u\<rparr>))"
proof -
  from assms(1) have "u \<noteq> []" using isValidEmail_Nil by auto
  with assms show ?thesis
    by (simp add: register_def falsy_def toText_def Let_def writeUsers_def)
qed

lemma register_then_taken:
  assumes "isValidEmail u" and "p1 \<noteq> []"
  shows "find (\<lambda>x. username x = u) (readUsers (users (snd (register (Some u) (Some p1) st))))
           \<noteq> None"
proof (cases "find (\<lambda>x. username x = u) (readUsers (users st))")
  case None
  with assms have "snd (register (Some u) (Some p1) st) =
      st\<lparr>users := Some (readUsers (users st) @ [\<lparr>username = u, password = p1\<rparr>]),
         session := Some u\<rparr>"
    by (simp add: register_valid)
  then show ?thesis by (auto simp: readUsers_def find_None_iff)
next
  case (Some x)
  with assms have "snd (register (Some u) (Some p1) st) = st" by (simp add: register_valid)
  with Some show ?thesis by simp
qed

lemma register_success:
  assumes "fst (register (Some u) pw st) = Inr r"
  shows "isValidEmail u \<and> (\<exists>p. pw = Some p \<and> p \<noteq> [])"
proof (cases "isValidEmail u")
  case False
  then have "register (Some u) pw st =
      (Inl (if u = [] \<or> falsy pw then MissingCredentials else InvalidEmail), st)"
    by (rule register_invalid)
  with assms show ?thesis by simp
next
  case True
  with assms show ?thesis
    by (cases pw) (auto simp: register_def falsy_def split: if_splits)
qed

text \<open>
  Claim C6. A username that fails the email pattern is refused by \<open>register\<close> and
  by \<open>login\<close> with status 400, whatever the password, even a missing one, and the
  users file and the session stay as they are. After a registration that succeeded,
  registering again with the same username and any password is refused with status
  409, user already exists, and leaves the users file and the session as the first
  call left them; the same holds after any first call with an email-shaped username
  and a password, whether it succeeded or met the username already taken.
\<close>

theorem register_login_validation_and_conflict:
  "(\<not> isValidEmail u \<longrightarrow>
      (\<exists>e. register (Some u) pw st = (Inl e, st)
           \<and> (e = MissingCredentials \<or> e = InvalidEmail) \<and> status e = 400)
    \<and> login (Some u) pw st = (Inl InvalidEmail, st) \<and> status InvalidEmail = 400)
   \<and> (fst (register (Some u) pw st) = Inr r \<and> p2 \<noteq> [] \<longrightarrow>
      register (Some u) (Some p2) (snd (register (Some u) pw st)) =
        (Inl UsernameTaken, snd (register (Some u) pw st))
    \<and> status UsernameTaken = 409)
   \<and> (isValidEmail u \<and> p1 \<noteq> [] \<and> p2 \<noteq> [] \<longrightarrow>
      register (Some u) (Some p2) (snd (register (Some u) (Some p1) st)) =
        (Inl UsernameTaken, snd (register (Some u) (Some p1) st)))"
proof (intro conjI impI)
  assume "\<not> isValidEmail u"
  then have "register (Some u) pw st =
      (Inl (if u = [] \<or> falsy pw then MissingCredentials else InvalidEmail), st)"
    by (rule register_invalid)
  then show "\<exists>e. register (Some u) pw st = (Inl e, st)
      \<and> (e = MissingCredentials \<or> e = InvalidEmail) \<and> status e = 400"
    by (cases "u = [] \<or> falsy pw") auto
next
  assume "\<not> isValidEmail u"
  then show "login (Some u) pw st = (Inl InvalidEmail, st)" by (rule login_invalid)
next
  show "status InvalidEmail = 400" by simp
next
  assume a: "fst (register (Some u) pw st) = Inr r \<and> p2 \<noteq> []"
  with register_success [of u pw st r] obtain p where v: "isValidEmail u"
    and pw: "pw = Some p" and p: "p \<noteq> []" by blast
  from v p have "find (\<lambda>x. username x = u)
      (readUsers (users (snd (register (Some u) (Some p) st)))) \<noteq> None"
    by (rule register_then_taken)
  with a v show "register (Some u) (Some p2) (snd (register (Some u) pw st)) =
      (Inl UsernameTaken, snd (register (Some u) pw st))"
    unfolding pw by (simp add: register_valid [of u p2])
next
  show "status UsernameTaken = 409" by simp
next
  assume a: "isValidEmail u \<and> p1 \<noteq> [] \<and> p2 \<noteq> []"
  then have "find (\<lambda>x. username x = u)
      (readUsers (users (snd (register (Some u) (Some p1) st)))) \<noteq> None"
    by (simp add: register_then_taken)
  with a show "register (Some u) (Some p2) (snd (register (Some u) (Some p1) st)) =
      (Inl UsernameTaken, snd (register (Some u) (Some p1) st))"
    by (simp add: register_valid [of u p2])
qed

text \<open>The tests' usernames: \<open>notanemail\<close> is refused by both routes with status
  400; \<open>bob@example.com\<close> registers into an empty users file, and registering him
  again is refused with status 409 and changes nothing.\<close>

theorem register_login_validation_and_conflict_witness:
  "\<not> isValidEmail ''notanemail''
   \<and> register (Some ''notanemail'') (Some ''pw'') noUsers = (Inl InvalidEmail, noUsers)
   \<and> login (Some ''notanemail'') (Some ''pw'') noUsers = (Inl InvalidEmail, noUsers)
   \<and> status InvalidEmail = 400
   \<and> isValidEmail ''bob@example.com'' \<and> ''pw'' \<noteq> []
   \<and> register (Some ''bob@example.com'') (Some ''pw'') noUsers =
       (Inr ''bob@example.com'',
        \<lparr>users = Some [\<lparr>username = ''bob@example.com'', password = ''pw''\<rparr>],
         session = Some ''bob@example.com''\<rparr>)
   \<and> register (Some ''bob@example.com'') (Some ''pw'')
         (snd (register (Some ''bob@example.com'') (Some ''pw'') noUsers)) =
       (Inl UsernameTaken, snd (register (Some ''bob@example.com'') (Some ''pw'') noUsers))
   \<and> status UsernameTaken = 409"
proof -
  have bad: "\<not> isValidEmail ''notanemail''"
    by (simp add: isValidEmail_def emailPattern_def oneOrMore_def notAtOrSpace_def
        whitespace_def)
  have good: "isValidEmail ''bob@example.com''"
    by (simp add: isValidEmail_def emailPattern_def oneOrMore_def notAtOrSpace_def
        whitespace_def)
  note th1 = register_login_validation_and_conflict
    [of "''notanemail''" "Some ''pw''" noUsers "''notanemail''" "''pw''" "''pw''"]
  note th2 = register_login_validation_and_conflict
    [of "''bob@example.com''" "Some ''pw''" noUsers "''bob@example.com''" "''pw''" "''pw''"]
  from th1 bad
  have 1: "register (Some ''notanemail'') (Some ''pw'') noUsers = (Inl InvalidEmail, noUsers)"
    by (simp add: register_invalid falsy_def)
  from th1 bad
  have 2: "login (Some ''notanemail'') (Some ''pw'') noUsers = (Inl InvalidEmail, noUsers)"
    by simp
  have 3: "register (Some ''bob@example.com'') (Some ''pw'') noUsers =
       (Inr ''bob@example.com'',
        \<lparr>users = Some [\<lparr>username = ''bob@example.com'', password = ''pw''\<rparr>],
         session = Some ''bob@example.com''\<rparr>)"
    using good by (simp add: register_valid noUsers_def readUsers_def)
  from 3 have first: "fst (register (Some ''bob@example.com'') (Some ''pw'') noUsers) =
      Inr ''bob@example.com''" by simp
  from th2 first
  have 4: "register (Some ''bob@example.com'') (Some ''pw'')
         (snd (register (Some ''bob@example.com'') (Some ''pw'') noUsers)) =
       (Inl UsernameTaken, snd (register (Some ''bob@example.com'') (Some ''pw'') noUsers))"
    by simp
  from bad good 1 2 3 4 show ?thesis by simp
qed

section \<open>What a successful mutation writes\<close>

lemma findIndex_nonneg: "0 \<le> findIndex (\<lambda>x. f x = v) xs \<longleftrightarrow> v \<in> set (map f xs)"
proof -
  have "- 1 \<le> findIndex (\<lambda>x. f x = v) xs" by (rule findIndex_ge)
  moreover have "findIndex (\<lambda>x. f x = v) xs = - 1 \<longleftrightarrow> v \<notin> set (map f xs)"
    by (rule findIndex_field)
  ultimately show ?thesis by linarith
qed

lemma addOrUpdateCity_success:
  assumes "fst (addOrUpdateCity cfg (Some u) (Some c) file) = Inr r"
    and "cs = orEmpty (entry (readData file) u)"
    and "cs' = (if name c \<in> set (map name cs)
                then cs[nat (findIndex (\<lambda>x. name x = name c) cs) := firstItems cfg c]
                else cs @ [firstItems cfg c])"
  shows "snd (addOrUpdateCity cfg (Some u) (Some c) file) =
           Some ((readData file)(u \<mapsto> JCities cs', ''latest'' \<mapsto> JCities cs'))"
proof -
  from assms(1) have u: "u \<noteq> []" and c: "name c \<noteq> []"
    by (auto simp: addOrUpdateCity_def split: if_splits)
  show ?thesis
  proof (cases "name c \<in> set (map name cs)")
    case True
    with addOrUpdateCity_replace [OF u c assms(2) True refl, of cfg] assms(3)
    show ?thesis by simp
  next
    case False
    show ?thesis
    proof (cases "int (length cs) < maxCitiesPerUser cfg")
      case True
      with addOrUpdateCity_append [OF u c assms(2) False True refl] False assms(3)
      show ?thesis by simp
    next
      case lim: False
      then have "maxCitiesPerUser cfg \<le> int (length cs)" by simp
      from addOrUpdateCity_limit [OF u c assms(2) False this] assms(1)
      show ?thesis by simp
    qed
  qed
qed

lemma deleteCity_success:
  assumes "fst (deleteCity (Some u) cityName file) = Inr r"
    and "cs = orEmpty (entry (readData file) u)"
  shows "snd (deleteCity (Some u) cityName file) =
           Some ((readData file)
             (u \<mapsto> JCities (filter (\<lambda>c. name c \<noteq> cityName) cs),
              ''latest'' \<mapsto> JCities (filter (\<lambda>c. name c \<noteq> cityName) cs)))"
proof -
  from assms(1) have u: "u \<noteq> []"
    by (auto simp: deleteCity_def split: if_splits)
  show ?thesis
  proof (cases "entry (readData file) u")
    case None
    from deleteCity_no_list [OF u None] assms(1) show ?thesis by simp
  next
    case (Some xs)
    with assms(2) have "cs = xs" by (simp add: orEmpty_def)
    with deleteCity_list [OF u Some refl] show ?thesis by simp
  qed
qed

lemma addAttraction_success:
  assumes "fst (addAttraction cfg (Some u) cityName (Some a) file) = Inr r"
    and "cs = orEmpty (entry (readData file) u)"
    and "i = nat (findIndex (\<lambda>x. name x = cityName) cs)"
    and "as = orEmpty (attractions (cs ! i))"
    and "cs' = cs[i := (cs ! i)\<lparr>attractions := Some (if a \<in> set as then as else as @ [a])\<rparr>]"
  shows "snd (addAttraction cfg (Some u) cityName (Some a) file) =
           Some ((readData file)(u \<mapsto> JCities cs', ''latest'' \<mapsto> JCities cs'))"
proof -
  from assms(1) have u: "u \<noteq> []" and a: "a \<noteq> []"
    by (auto simp: addAttraction_def split: if_splits)
  show ?thesis
  proof (cases "find (\<lambda>x. name x = cityName) cs")
    case None
    from addAttraction_not_found [OF u a None [unfolded assms(2)]] assms(1)
    show ?thesis by simp
  next
    case (Some c)
    from find_position [OF Some]
    have c: "cs ! nat (findIndex (\<lambda>x. name x = cityName) cs) = c" by simp
    from addAttraction_found [OF u a assms(2) Some refl refl refl, of cfg] assms(1)
    show ?thesis unfolding assms(5) assms(4) c assms(3)
      by (simp split: if_splits)
  qed
qed

lemma addRestaurant_success:
  assumes "fst (addRestaurant cfg (Some u) cityName (Some a) file) = Inr r"
    and "cs = orEmpty (entry (readData file) u)"
    and "i = nat (findIndex (\<lambda>x. name x = cityName) cs)"
    and "rs = orEmpty (restaurants (cs ! i))"
    and "cs' = cs[i := (cs ! i)\<lparr>restaurants := Some (if a \<in> set rs then rs else rs @ [a])\<rparr>]"
  shows "snd (addRestaurant cfg (Some u) cityName (Some a) file) =
           Some ((readData file)(u \<mapsto> JCities cs', ''latest'' \<mapsto> JCities cs'))"
proof -
  from assms(1) have u: "u \<noteq> []" and a: "a \<noteq> []"
    by (auto simp: addRestaurant_def split: if_splits)
  show ?thesis
  proof (cases "find (\<lambda>x. name x = cityName) cs")
    case None
    from addRestaurant_not_found [OF u a None [unfolded assms(2)]] assms(1)
    show ?thesis by simp
  next
    case (Some c)
    from find_position [OF Some]
    have c: "cs ! nat (findIndex (\<lambda>x. name x = cityName) cs) = c" by simp
    from addRestaurant_found [OF u a assms(2) Some refl refl refl, of cfg] assms(1)
    show ?thesis unfolding assms(5) assms(4) c assms(3)
      by (simp split: if_splits)
  qed
qed

lemma deleteAttraction_success:
  assumes "fst (deleteAttraction (Some u) cityName a file) = Inr r"
    and "cs = orEmpty (entry (readData file) u)"
    and "i = nat (findIndex (\<lambda>x. name x = cityName) cs)"
    and "cs' = cs[i := (cs ! i)\<lparr>attractions :=
                  Some (filter (\<lambda>x. x \<noteq> a) (orEmpty (attractions (cs ! i))))\<rparr>]"
  shows "snd (deleteAttraction (Some u) cityName a file) =
           Some ((readData file)(u \<mapsto> JCities cs', ''latest'' \<mapsto> JCities cs'))"
proof -
  from assms(1) have u: "u \<noteq> []"
    by (auto simp: deleteAttraction_def split: if_splits)
  show ?thesis
  proof (cases "find (\<lambda>x. name x = cityName) cs")
    case None
    from deleteAttraction_not_found [OF u None [unfolded assms(2)]] assms(1)
    show ?thesis by simp
  next
    case (Some c)
    from find_position [OF Some]
    have c: "cs ! nat (findIndex (\<lambda>x. name x = cityName) cs) = c" by simp
    from deleteAttraction_found [OF u assms(2) Some refl refl]
    show ?thesis unfolding assms(4) c assms(3) by simp
  qed
qed

lemma deleteRestaurant_success:
  assumes "fst (deleteRestaurant (Some u) cityName a file) = Inr r"
    and "cs = orEmpty (entry (readData file) u)"
    and "i = nat (findIndex (\<lambda>x. name x = cityName) cs)"
    and "cs' = cs[i := (cs ! i)\<lparr>restaurants :=
                  Some (filter (\<lambda>x. x \<noteq> a) (orEmpty (restaurants (cs ! i))))\<rparr>]"
  shows "snd (deleteRestaurant (Some u) cityName a file) =
           Some ((readData file)(u \<mapsto> JCities cs', ''latest'' \<mapsto> JCities cs'))"
proof -
  from assms(1) have u: "u \<noteq> []"
    by (auto simp: deleteRestaurant_def split: if_splits)
  show ?thesis
  proof (cases "find (\<lambda>x. name x = cityName) cs")
    case None
    from deleteRestaurant_not_found [OF u None [unfolded assms(2)]] assms(1)
    show ?thesis by simp
  next
    case (Some c)
    from find_position [OF Some]
    have c: "cs ! nat (findIndex (\<lambda>x. name x = cityName) cs) = c" by simp
    from deleteRestaurant_found [OF u assms(2) Some refl refl]
    show ?thesis unfolding assms(4) c assms(3) by simp
  qed
qed
text \<open>
  Claim C8. Under the default limits, each of the six mutating handlers, when it
  answers a session user \<open>u\<close> with success, writes the data file as the database it
  read with one change: the user's new list, stored under \<open>u\<close> and under
  \<open>latest\<close> alike. The new list is, for \<open>addOrUpdateCity\<close>, the list with the
  posted city replacing the first city of its name or appended; for \<open>deleteCity\<close>,
  the list without the cities of the given name; for the attraction and restaurant
  handlers, the list with the first city of the given name changed. Whatever the
  router answers with success to a request other than the listing is written in this
  form, and in a database of this form the \<open>latest\<close> snapshot is the user's list.
\<close>

theorem mutation_sets_latest:
  assumes "cs = orEmpty (entry (readData old) u)"
    and "i = nat (findIndex (\<lambda>x. name x = cityName) cs)"
  shows
    "(fst (addOrUpdateCity defaults (Some u) (Some c) old) = Inr r1 \<longrightarrow>
        snd (addOrUpdateCity defaults (Some u) (Some c) old) =
          Some ((readData old)
            (u \<mapsto> JCities
                (if name c \<in> set (map name cs)
                 then cs[nat (findIndex (\<lambda>x. name x = name c) cs) := firstItems defaults c]
                 else cs @ [firstItems defaults c]),
             ''latest'' \<mapsto> JCities
                (if name c \<in> set (map name cs)
                 then cs[nat (findIndex (\<lambda>x. name x = name c) cs) := firstItems defaults c]
                 else cs @ [firstItems defaults c]))))
   \<and> (fst (deleteCity (Some u) cityName old) = Inr r2 \<longrightarrow>
        snd (deleteCity (Some u) cityName old) =
          Some ((readData old)
            (u \<mapsto> JCities (filter (\<lambda>x. name x \<noteq> cityName) cs),
             ''latest'' \<mapsto> JCities (filter (\<lambda>x. name x \<noteq> cityName) cs))))
   \<and> (fst (addAttraction defaults (Some u) cityName (Some a) old) = Inr r3 \<longrightarrow>
        snd (addAttraction defaults (Some u) cityName (Some a) old) =
          Some ((readData old)
            (u \<mapsto> JCities
                (cs[i := (cs ! i)\<lparr>attractions :=
                      Some (if a \<in> set (orEmpty (attractions (cs ! i)))
                            then orEmpty (attractions (cs ! i))
                            else orEmpty (attractions (cs ! i)) @ [a])\<rparr>]),
             ''latest'' \<mapsto> JCities
                (cs[i := (cs ! i)\<lparr>attractions :=
                      Some (if a \<in> set (orEmpty (attractions (cs ! i)))
                            then orEmpty (attractions (cs ! i))
                            else orEmpty (attractions (cs ! i)) @ [a])\<rparr>]))))
   \<and> (fst (deleteAttraction (Some u) cityName a old) = Inr r4 \<longrightarrow>
        snd (deleteAttraction (Some u) cityName a old) =
          Some ((readData old)
            (u \<mapsto> JCities
                (cs[i := (cs ! i)\<lparr>attractions :=
                      Some (filter (\<lambda>x. x \<noteq> a) (orEmpty (attractions (cs ! i))))\<rparr>]),
             ''latest'' \<mapsto> JCities
                (cs[i := (cs ! i)\<lparr>attractions :=
                      Some (filter (\<lambda>x. x \<noteq> a) (orEmpty (attractions (cs ! i))))\<rparr>]))))
   \<and> (fst (addRestaurant defaults (Some u) cityName (Some a) old) = Inr r5 \<longrightarrow>
        snd (addRestaurant defaults (Some u) cityName (Some a) old) =
          Some ((readData old)
            (u \<mapsto> JCities
                (cs[i := (cs ! i)\<lparr>restaurants :=
                      Some (if a \<in> set (orEmpty (restaurants (cs ! i)))
                            then orEmpty (restaurants (cs ! i))
                            else orEmpty (restaurants (cs ! i)) @ [a])\<rparr>]),
             ''latest'' \<mapsto> JCities
                (cs[i := (cs ! i)\<lparr>restaurants :=
                      Some (if a \<in> set (orEmpty (restaurants (cs ! i)))
                            then orEmpty (restaurants (cs ! i))
                            else orEmpty (restaurants (cs ! i)) @ [a])\<rparr>]))))
   \<and> (fst (deleteRestaurant (Some u) cityName a old) = Inr r6 \<longrightarrow>
        snd (deleteRestaurant (Some u) cityName a old) =
          Some ((readData old)
            (u \<mapsto> JCities
                (cs[i := (cs ! i)\<lparr>restaurants :=
                      Some (filter (\<lambda>x. x \<noteq> a) (orEmpty (restaurants (cs ! i))))\<rparr>]),
             ''latest'' \<mapsto> JCities
                (cs[i := (cs ! i)\<lparr>restaurants :=
                      Some (filter (\<lambda>x. x \<noteq> a) (orEmpty (restaurants (cs ! i))))\<rparr>]))))
   \<and> (req \<noteq> GetCities \<and> fst (router defaults who req old) = Inr r \<longrightarrow>
        (\<exists>v new. who = Some v \<and> v \<noteq> []
           \<and> snd (router defaults who req old) =
               Some ((readData old)(v \<mapsto> JCities new, ''latest'' \<mapsto> JCities new))))
   \<and> entry (data(u \<mapsto> JCities new, ''latest'' \<mapsto> JCities new)) ''latest'' = Some new
   \<and> entry (data(u \<mapsto> JCities new, ''latest'' \<mapsto> JCities new)) u = Some new"
proof (intro conjI impI)
  assume "fst (addOrUpdateCity defaults (Some u) (Some c) old) = Inr r1"
  then show "snd (addOrUpdateCity defaults (Some u) (Some c) old) =
          Some ((readData old)
            (u \<mapsto> JCities
                (if name c \<in> set (map name cs)
                 then cs[nat (findIndex (\<lambda>x. name x = name c) cs) := firstItems defaults c]
                 else cs @ [firstItems defaults c]),
             ''latest'' \<mapsto> JCities
                (if name c \<in> set (map name cs)
                 then cs[nat (findIndex (\<lambda>x. name x = name c) cs) := firstItems defaults c]
                 else cs @ [firstItems defaults c])))"
    using assms(1) refl by (rule addOrUpdateCity_success)
next
  assume "fst (deleteCity (Some u) cityName old) = Inr r2"
  then show "snd (deleteCity (Some u) cityName old) =
          Some ((readData old)
            (u \<mapsto> JCities (filter (\<lambda>x. name x \<noteq> cityName) cs),
             ''latest'' \<mapsto> JCities (filter (\<lambda>x. name x \<noteq> cityName) cs)))"
    using assms(1) by (rule deleteCity_success)
next
  assume "fst (addAttraction defaults (Some u) cityName (Some a) old) = Inr r3"
  then show "snd (addAttraction defaults (Some u) cityName (Some a) old) =
          Some ((readData old)
            (u \<mapsto> JCities
                (cs[i := (cs ! i)\<lparr>attractions :=
                      Some (if a \<in> set (orEmpty (attractions (cs ! i)))
                            then orEmpty (attractions (cs ! i))
                            else orEmpty (attractions (cs ! i)) @ [a])\<rparr>]),
             ''latest'' \<mapsto> JCities
                (cs[i := (cs ! i)\<lparr>attractions :=
                      Some (if a \<in> set (orEmpty (attractions (cs ! i)))
                            then orEmpty (attractions (cs ! i))
                            else orEmpty (attractions (cs ! i)) @ [a])\<rparr>])))"
    using assms refl refl by (rule addAttraction_success)
next
  assume "fst (deleteAttraction (Some u) cityName a old) = Inr r4"
  then show "snd (deleteAttraction (Some u) cityName a old) =
          Some ((readData old)
            (u \<mapsto> JCities
                (cs[i := (cs ! i)\<lparr>attractions :=
                      Some (filter (\<lambda>x. x \<noteq> a) (orEmpty (attractions (cs ! i))))\<rparr>]),
             ''latest'' \<mapsto> JCities
                (cs[i := (cs ! i)\<lparr>attractions :=
                      Some (filter (\<lambda>x. x \<noteq> a) (orEmpty (attractions (cs ! i))))\<rparr>])))"
    using assms refl by (rule deleteAttraction_success)
next
  assume "fst (addRestaurant defaults (Some u) cityName (Some a) old) = Inr r5"
  then show "snd (addRestaurant defaults (Some u) cityName (Some a) old) =
          Some ((readData old)
            (u \<mapsto> JCities
                (cs[i := (cs ! i)\<lparr>restaurants :=
                      Some (if a \<in> set (orEmpty (restaurants (cs ! i)))
                            then orEmpty (restaurants (cs ! i))
                            else orEmpty (restaurants (cs ! i)) @ [a])\<rparr>]),
             ''latest'' \<mapsto> JCities
                (cs[i := (cs ! i)\<lparr>restaurants :=
                      Some (if a \<in> set (orEmpty (restaurants (cs ! i)))
                            then orEmpty (restaurants (cs ! i))
                            else orEmpty (restaurants (cs ! i)) @ [a])\<rparr>])))"
    using assms refl refl by (rule addRestaurant_success)
next
  assume "fst (deleteRestaurant (Some u) cityName a old) = Inr r6"
  then show "snd (deleteRestaurant (Some u) cityName a old) =
          Some ((readData old)
            (u \<mapsto> JCities
                (cs[i := (cs ! i)\<lparr>restaurants :=
                      Some (filter (\<lambda>x. x \<noteq> a) (orEmpty (restaurants (cs ! i))))\<rparr>]),
             ''latest'' \<mapsto> JCities
                (cs[i := (cs ! i)\<lparr>restaurants :=
                      Some (filter (\<lambda>x. x \<noteq> a) (orEmpty (restaurants (cs ! i))))\<rparr>])))"
    using assms refl by (rule deleteRestaurant_success)
next
  assume a: "req \<noteq> GetCities \<and> fst (router defaults who req old) = Inr r"
  then have "keepsOrStores who old (router defaults who req old)"
    by (simp add: router_keepsOrStores)
  with a show "\<exists>v new. who = Some v \<and> v \<noteq> []
      \<and> snd (router defaults who req old) =
          Some ((readData old)(v \<mapsto> JCities new, ''latest'' \<mapsto> JCities new))"
    unfolding keepsOrStores_def by auto
next
  show "entry (data(u \<mapsto> JCities new, ''latest'' \<mapsto> JCities new)) ''latest'' = Some new"
    by (rule entry_update)
next
  show "entry (data(u \<mapsto> JCities new, ''latest'' \<mapsto> JCities new)) u = Some new"
    by (rule entry_update)
qed
text \<open>carol's stored list is Rome while the snapshot is Paris, another user's list.
  Each of her six successful requests writes her new list under \<open>carol\<close> and as
  the snapshot.\<close>

theorem mutation_sets_latest_witness:
  "entry (readData carolFile) ''carol'' = Some [rome]
   \<and> entry (readData carolFile) ''latest'' = Some [paris]
   \<and> fst (addOrUpdateCity defaults (Some ''carol'') (Some paris) carolFile) = Inr paris
   \<and> snd (addOrUpdateCity defaults (Some ''carol'') (Some paris) carolFile) =
       Some ((readData carolFile)
         (''carol'' \<mapsto> JCities [rome, paris], ''latest'' \<mapsto> JCities [rome, paris]))
   \<and> fst (deleteCity (Some ''carol'') ''Rome'' carolFile) = Inr ''City deleted''
   \<and> snd (deleteCity (Some ''carol'') ''Rome'' carolFile) =
       Some ((readData carolFile)(''carol'' \<mapsto> JCities [], ''latest'' \<mapsto> JCities []))
   \<and> fst (addAttraction defaults (Some ''carol'') ''Rome'' (Some ''Trevi'') carolFile) =
       Inr (rome\<lparr>attractions := Some [''Colosseum'', ''Trevi'']\<rparr>)
   \<and> snd (addAttraction defaults (Some ''carol'') ''Rome'' (Some ''Trevi'') carolFile) =
       Some ((readData carolFile)
         (''carol'' \<mapsto> JCities [rome\<lparr>attractions := Some [''Colosseum'', ''Trevi'']\<rparr>],
          ''latest'' \<mapsto> JCities [rome\<lparr>attractions := Some [''Colosseum'', ''Trevi'']\<rparr>]))
   \<and> fst (deleteAttraction (Some ''carol'') ''Rome'' ''Colosseum'' carolFile) =
       Inr (rome\<lparr>attractions := Some []\<rparr>)
   \<and> snd (deleteAttraction (Some ''carol'') ''Rome'' ''Colosseum'' carolFile) =
       Some ((readData carolFile)
         (''carol'' \<mapsto> JCities [rome\<lparr>attractions := Some []\<rparr>],
          ''latest'' \<mapsto> JCities [rome\<lparr>attractions := Some []\<rparr>]))
   \<and> fst (addRestaurant defaults (Some ''carol'') ''Rome'' (Some ''Curry 36'') carolFile) =
       Inr (rome\<lparr>restaurants := Some [''Roscioli'', ''Curry 36'']\<rparr>)
   \<and> snd (addRestaurant defaults (Some ''carol'') ''Rome'' (Some ''Curry 36'') carolFile) =
       Some ((readData carolFile)
         (''carol'' \<mapsto> JCities [rome\<lparr>restaurants := Some [''Roscioli'', ''Curry 36'']\<rparr>],
          ''latest'' \<mapsto> JCities [rome\<lparr>restaurants := Some [''Roscioli'', ''Curry 36'']\<rparr>]))
   \<and> fst (deleteRestaurant (Some ''carol'') ''Rome'' ''Roscioli'' carolFile) =
       Inr (rome\<lparr>restaurants := Some []\<rparr>)
   \<and> snd (deleteRestaurant (Some ''carol'') ''Rome'' ''Roscioli'' carolFile) =
       Some ((readData carolFile)
         (''carol'' \<mapsto> JCities [rome\<lparr>restaurants := Some []\<rparr>],
          ''latest'' \<mapsto> JCities [rome\<lparr>restaurants := Some []\<rparr>]))
   \<and> DeleteCity ''Rome'' \<noteq> GetCities
   \<and> fst (router defaults (Some ''carol'') (DeleteCity ''Rome'') carolFile) =
       Inr (Message ''City deleted'')
   \<and> (\<exists>v new. Some ''carol'' = Some v \<and> v \<noteq> []
        \<and> snd (router defaults (Some ''carol'') (DeleteCity ''Rome'') carolFile) =
            Some ((readData carolFile)(v \<mapsto> JCities new, ''latest'' \<mapsto> JCities new)))"
proof -
  have carol: "entry (readData carolFile) ''carol'' = Some [rome]"
    and latest: "entry (readData carolFile) ''latest'' = Some [paris]"
    by (simp_all add: carolFile_def readData_def entry_def)
  have cs: "orEmpty (entry (readData carolFile) ''carol'') = [rome]"
    by (simp add: carol orEmpty_def)
  have i: "nat (findIndex (\<lambda>x. name x = ''Rome'') [rome]) = 0" by (simp add: rome_def)
  have nm: "name rome = ''Rome''" "name paris = ''Paris''"
    and items: "orEmpty (attractions rome) = [''Colosseum'']"
      "orEmpty (restaurants rome) = [''Roscioli'']"
      "firstItems defaults paris = paris"
    by (simp_all add: rome_def paris_def emptyCity_def orEmpty_def firstItems_defaults)
  note evals = respond_def addOrUpdateCity_def deleteCity_def addAttraction_def
    deleteAttraction_def addRestaurant_def deleteRestaurant_def Let_def writeData_def
    defaults_limits cs nm items
  have h1: "fst (addOrUpdateCity defaults (Some ''carol'') (Some paris) carolFile) = Inr paris"
    and h2: "fst (deleteCity (Some ''carol'') ''Rome'' carolFile) = Inr ''City deleted''"
    and h3: "fst (addAttraction defaults (Some ''carol'') ''Rome'' (Some ''Trevi'') carolFile) =
       Inr (rome\<lparr>attractions := Some [''Colosseum'', ''Trevi'']\<rparr>)"
    and h4: "fst (deleteAttraction (Some ''carol'') ''Rome'' ''Colosseum'' carolFile) =
       Inr (rome\<lparr>attractions := Some []\<rparr>)"
    and h5: "fst (addRestaurant defaults (Some ''carol'') ''Rome'' (Some ''Curry 36'') carolFile) =
       Inr (rome\<lparr>restaurants := Some [''Roscioli'', ''Curry 36'']\<rparr>)"
    and h6: "fst (deleteRestaurant (Some ''carol'') ''Rome'' ''Roscioli'' carolFile) =
       Inr (rome\<lparr>restaurants := Some []\<rparr>)"
    and h7: "fst (router defaults (Some ''carol'') (DeleteCity ''Rome'') carolFile) =
       Inr (Message ''City deleted'')"
    by (simp_all add: evals carol orEmpty_def rome_def paris_def emptyCity_def
        firstItems_defaults)
  note th = mutation_sets_latest [OF refl refl, where old = carolFile and u = "''carol''"
      and cityName = "''Rome''"]
  from th [where c = paris, THEN conjunct1, THEN mp, OF h1]
  have 1: "snd (addOrUpdateCity defaults (Some ''carol'') (Some paris) carolFile) =
       Some ((readData carolFile)
         (''carol'' \<mapsto> JCities [rome, paris], ''latest'' \<mapsto> JCities [rome, paris]))"
    by (simp add: cs nm items)
  from th [THEN conjunct2, THEN conjunct1, THEN mp, OF h2]
  have 2: "snd (deleteCity (Some ''carol'') ''Rome'' carolFile) =
       Some ((readData carolFile)(''carol'' \<mapsto> JCities [], ''latest'' \<mapsto> JCities []))"
    by (simp add: cs nm)
  from th [where a = "''Trevi''", THEN conjunct2, THEN conjunct2, THEN conjunct1, THEN mp, OF h3]
  have 3: "snd (addAttraction defaults (Some ''carol'') ''Rome'' (Some ''Trevi'') carolFile) =
       Some ((readData carolFile)
         (''carol'' \<mapsto> JCities [rome\<lparr>attractions := Some [''Colosseum'', ''Trevi'']\<rparr>],
          ''latest'' \<mapsto> JCities [rome\<lparr>attractions := Some [''Colosseum'', ''Trevi'']\<rparr>]))"
    by (simp add: cs i items)
  from th [where a = "''Colosseum''", THEN conjunct2, THEN conjunct2, THEN conjunct2,
      THEN conjunct1, THEN mp, OF h4]
  have 4: "snd (deleteAttraction (Some ''carol'') ''Rome'' ''Colosseum'' carolFile) =
       Some ((readData carolFile)
         (''carol'' \<mapsto> JCities [rome\<lparr>attractions := Some []\<rparr>],
          ''latest'' \<mapsto> JCities [rome\<lparr>attractions := Some []\<rparr>]))"
    by (simp add: cs i items)
  from th [where a = "''Curry 36''", THEN conjunct2, THEN conjunct2, THEN conjunct2,
      THEN conjunct2, THEN conjunct1, THEN mp, OF h5]
  have 5: "snd (addRestaurant defaults (Some ''carol'') ''Rome'' (Some ''Curry 36'') carolFile) =
       Some ((readData carolFile)
         (''carol'' \<mapsto> JCities [rome\<lparr>restaurants := Some [''Roscioli'', ''Curry 36'']\<rparr>],
          ''latest'' \<mapsto> JCities [rome\<lparr>restaurants := Some [''Roscioli'', ''Curry 36'']\<rparr>]))"
    by (simp add: cs i items)
  from th [where a = "''Roscioli''", THEN conjunct2, THEN conjunct2, THEN conjunct2,
      THEN conjunct2, THEN conjunct2, THEN conjunct1, THEN mp, OF h6]
  have 6: "snd (deleteRestaurant (Some ''carol'') ''Rome'' ''Roscioli'' carolFile) =
       Some ((readData carolFile)
         (''carol'' \<mapsto> JCities [rome\<lparr>restaurants := Some []\<rparr>],
          ''latest'' \<mapsto> JCities [rome\<lparr>restaurants := Some []\<rparr>]))"
    by (simp add: cs i items)
  have ne: "DeleteCity ''Rome'' \<noteq> GetCities" by simp
  from th [where req = "DeleteCity ''Rome''" and who = "Some ''carol''", THEN conjunct2,
      THEN conjunct2, THEN conjunct2, THEN conjunct2, THEN conjunct2, THEN conjunct2,
      THEN conjunct1, THEN mp, OF conjI, OF ne h7]
  have 7: "\<exists>v new. Some ''carol'' = Some v \<and> v \<noteq> []
        \<and> snd (router defaults (Some ''carol'') (DeleteCity ''Rome'') carolFile) =
            Some ((readData carolFile)(v \<mapsto> JCities new, ''latest'' \<mapsto> JCities new))" .
  from carol latest h1 h2 h3 h4 h5 h6 h7 1 2 3 4 5 6 7 ne show ?thesis by blast
qed

section \<open>Reading back what was written\<close>

lemma hexVal_hexDigit_all: "\<forall>n\<in>set [0..<16]. hexVal (hexDigit n) = Some n"
  by code_simp

lemma hexVal_hexDigit: "n < 16 \<Longrightarrow> hexVal (hexDigit n) = Some n"
  using hexVal_hexDigit_all by simp

lemma unicode_control:
  assumes "(of_char c :: nat) < 0x20"
  shows "unicode (CHR ''0'') (CHR ''0'') (hexDigit (of_char c div 16)) (hexDigit (of_char c mod 16))
           = Some c"
proof -
  let ?n = "of_char c :: nat"
  from assms have hi: "?n div 16 < 16" and lo: "?n mod 16 < 16" by simp_all
  have z: "hexVal (CHR ''0'') = Some 0" by (simp add: hexVal_def)
  have "((0 * 16 + 0) * 16 + ?n div 16) * 16 + ?n mod 16 = ?n" by simp
  moreover have "?n < 256" using assms by simp
  ultimately show ?thesis
    by (simp add: unicode_def z hexVal_hexDigit [OF hi] hexVal_hexDigit [OF lo])
qed

lemma parseChars_escape:
  "parseChars (escape c @ rest) = map_option (apfst ((#) c)) (parseChars rest)"
proof -
  consider "c = CHR 0x22" | "c = CHR 0x5C" | "c = CHR 0x08" | "c = CHR 0x0C" | "c = CHR 0x0A"
    | "c = CHR 0x0D" | "c = CHR 0x09"
    | "c \<notin> {CHR 0x22, CHR 0x5C, CHR 0x08, CHR 0x0C, CHR 0x0A, CHR 0x0D, CHR 0x09}"
        "(of_char c :: nat) < 0x20"
    | "c \<notin> {CHR 0x22, CHR 0x5C, CHR 0x08, CHR 0x0C, CHR 0x0A, CHR 0x0D, CHR 0x09}"
        "\<not> (of_char c :: nat) < 0x20"
    by blast
  then show ?thesis
  proof cases
    case 8
    then have "escape c = [CHR 0x5C, CHR ''u'', CHR ''0'', CHR ''0'',
              hexDigit (of_char c div 16), hexDigit (of_char c mod 16)]"
      by (simp add: escape_def)
    then show ?thesis by (simp add: unicode_control [OF 8(2)])
  next
    case 9
    then have "escape c = [c]" by (simp add: escape_def)
    with 9 show ?thesis by simp
  qed (simp_all add: escape_def unescape_def)
qed

lemma parseChars_quoted:
  "parseChars (concat (map escape s) @ CHR 0x22 # rest) = Some (s, rest)"
  by (induction s) (simp_all add: parseChars_escape)

lemma skipWs_ws: "\<forall>c\<in>set w. isWs c \<Longrightarrow> skipWs (w @ x) = skipWs x"
  by (simp add: skipWs_def dropWhile_append2)

lemma skipWs_Cons: "\<not> isWs c \<Longrightarrow> skipWs (c # x) = c # x"
  by (simp add: skipWs_def)

lemma skipWs_token: "\<forall>c\<in>set w. isWs c \<Longrightarrow> \<not> isWs c \<Longrightarrow> skipWs (w @ c # x) = c # x"
  by (simp add: skipWs_ws skipWs_Cons)

lemma isWs_simps:
  "isWs (CHR 0x0A)" "isWs (CHR 0x20)"
  "\<not> isWs (CHR ''n'')" "\<not> isWs (CHR 0x22)" "\<not> isWs (CHR ''['')" "\<not> isWs (CHR ''{'')"
  "\<not> isWs (CHR '']'')" "\<not> isWs (CHR ''}'')" "\<not> isWs (CHR '','')" "\<not> isWs (CHR '':'')"
  by (simp_all add: isWs_def)

text \<open>A written value starts with the character that tells its kind.\<close>

lemma ser_head:
  "\<exists>c r. ser ind v = c # r \<and> c \<in> {CHR ''n'', CHR 0x22, CHR ''['', CHR ''{''}"
proof (cases v)
  case Null
  then show ?thesis by simp
next
  case (Str s)
  then show ?thesis by (simp add: quote_def)
next
  case (Arr vs)
  then show ?thesis by (cases vs) simp_all
next
  case (Obj ms)
  then show ?thesis by (cases ms) simp_all
qed

lemma parseValue_null:
  assumes "\<forall>c\<in>set w0. isWs c"
  shows "parseValue (Suc m) (w0 @ ''null'' @ rest) = Some (Null, rest)"
proof -
  have "skipWs (w0 @ ''null'' @ rest) = ''null'' @ rest"
    using assms by (simp add: skipWs_token isWs_simps)
  then show ?thesis by simp
qed

lemma parseValue_string:
  assumes "\<forall>c\<in>set w0. isWs c"
  shows "parseValue (Suc m) (w0 @ quote s @ rest) = Some (Str s, rest)"
proof -
  have "skipWs (w0 @ quote s @ rest) = CHR 0x22 # concat (map escape s) @ CHR 0x22 # rest"
    using assms by (simp add: quote_def skipWs_token isWs_simps)
  then show ?thesis by (simp add: parseChars_quoted)
qed

lemma parseValue_empty_array:
  assumes "\<forall>c\<in>set w0. isWs c"
  shows "parseValue (Suc m) (w0 @ ''[]'' @ rest) = Some (Arr [], rest)"
proof -
  have "skipWs (w0 @ ''[]'' @ rest) = CHR ''['' # CHR '']'' # rest"
    using assms by (simp add: skipWs_token isWs_simps)
  then show ?thesis by (simp add: skipWs_Cons isWs_simps)
qed

lemma parseValue_empty_object:
  assumes "\<forall>c\<in>set w0. isWs c"
  shows "parseValue (Suc m) (w0 @ ''{}'' @ rest) = Some (Obj [], rest)"
proof -
  have "skipWs (w0 @ ''{}'' @ rest) = CHR ''{'' # CHR ''}'' # rest"
    using assms by (simp add: skipWs_token isWs_simps)
  then show ?thesis by (simp add: skipWs_Cons isWs_simps)
qed

lemma parseValue_array:
  assumes "\<forall>c\<in>set w0. isWs c" and "\<forall>c\<in>set w1. isWs c"
    and "\<not> isWs c" and "c \<noteq> CHR '']''"
  shows "parseValue (Suc m) (w0 @ CHR ''['' # w1 @ c # x) =
           map_option (apfst Arr) (parseElems m (w1 @ c # x))"
proof -
  have "skipWs (w0 @ CHR ''['' # w1 @ c # x) = CHR ''['' # w1 @ c # x"
    using assms(1) by (simp add: skipWs_token isWs_simps)
  moreover have "skipWs (w1 @ c # x) = c # x"
    using assms(2,3) by (simp add: skipWs_token)
  ultimately show ?thesis using assms(4) by simp
qed

lemma parseValue_object:
  assumes "\<forall>c\<in>set w0. isWs c" and "\<forall>c\<in>set w1. isWs c"
    and "\<not> isWs c" and "c \<noteq> CHR ''}''"
  shows "parseValue (Suc m) (w0 @ CHR ''{'' # w1 @ c # x) =
           map_option (apfst Obj) (parseMembers m (w1 @ c # x))"
proof -
  have "skipWs (w0 @ CHR ''{'' # w1 @ c # x) = CHR ''{'' # w1 @ c # x"
    using assms(1) by (simp add: skipWs_token isWs_simps)
  moreover have "skipWs (w1 @ c # x) = c # x"
    using assms(2,3) by (simp add: skipWs_token)
  ultimately show ?thesis using assms(4) by simp
qed

lemma parseElems_last:
  assumes "parseValue m s = Some (v, w @ CHR '']'' # rest)" and "\<forall>c\<in>set w. isWs c"
  shows "parseElems (Suc m) s = Some ([v], rest)"
  using assms by (simp add: skipWs_token isWs_simps)

lemma parseElems_more:
  assumes "parseValue m s = Some (v, CHR '','' # r)"
  shows "parseElems (Suc m) s = map_option (apfst ((#) v)) (parseElems m r)"
  using assms by (simp add: skipWs_Cons isWs_simps)

lemma parseMembers_last:
  assumes "\<forall>c\<in>set w0. isWs c" and "\<forall>c\<in>set w. isWs c"
    and "parseValue m (CHR 0x20 # x) = Some (v, w @ CHR ''}'' # rest)"
  shows "parseMembers (Suc m) (w0 @ quote k @ '': '' @ x) = Some ([(k, v)], rest)"
proof -
  have "skipWs (w0 @ quote k @ '': '' @ x) =
      CHR 0x22 # concat (map escape k) @ CHR 0x22 # CHR '':'' # CHR 0x20 # x"
    using assms(1) by (simp add: quote_def skipWs_token isWs_simps)
  then show ?thesis
    using assms(2,3) by (simp add: parseChars_quoted skipWs_Cons skipWs_token isWs_simps)
qed

lemma parseMembers_more:
  assumes "\<forall>c\<in>set w0. isWs c"
    and "parseValue m (CHR 0x20 # x) = Some (v, CHR '','' # r)"
  shows "parseMembers (Suc m) (w0 @ quote k @ '': '' @ x) =
           map_option (apfst ((#) (k, v))) (parseMembers m r)"
proof -
  have "skipWs (w0 @ quote k @ '': '' @ x) =
      CHR 0x22 # concat (map escape k) @ CHR 0x22 # CHR '':'' # CHR 0x20 # x"
    using assms(1) by (simp add: quote_def skipWs_token isWs_simps)
  then show ?thesis
    using assms(2) by (simp add: parseChars_quoted skipWs_Cons isWs_simps)
qed

lemma head_simps:
  assumes "c \<in> {CHR ''n'', CHR 0x22, CHR ''['', CHR ''{''}"
  shows "\<not> isWs c" and "c \<noteq> CHR '']''" and "c \<noteq> CHR ''}''"
  using assms by (auto simp: isWs_def)

text \<open>Reading a written value gives the value and the text that followed, whatever
  white space came before it; so do the elements of a written array up to its closing
  bracket and the members of a written object up to its closing brace.\<close>

lemma parse_written:
  "\<forall>c\<in>set ind. c = CHR 0x20 \<Longrightarrow> \<forall>c\<in>set w0. isWs c \<Longrightarrow> weight v \<le> n \<Longrightarrow>
     parseValue n (w0 @ ser ind v @ rest) = Some (v, rest)"
  "\<forall>c\<in>set ind. c = CHR 0x20 \<Longrightarrow> \<forall>c\<in>set w0. isWs c \<Longrightarrow> \<forall>c\<in>set w. isWs c \<Longrightarrow>
     vs \<noteq> [] \<Longrightarrow> weightElems vs \<le> n \<Longrightarrow>
     parseElems n (w0 @ serElems ind vs @ w @ CHR '']'' # rest) = Some (vs, rest)"
  "\<forall>c\<in>set ind. c = CHR 0x20 \<Longrightarrow> \<forall>c\<in>set w0. isWs c \<Longrightarrow> \<forall>c\<in>set w. isWs c \<Longrightarrow>
     ms \<noteq> [] \<Longrightarrow> weightMembers ms \<le> n \<Longrightarrow>
     parseMembers n (w0 @ serMembers ind ms @ w @ CHR ''}'' # rest) = Some (ms, rest)"
proof (induction ind v and ind vs and ind ms
    arbitrary: n w0 rest and n w0 w rest and n w0 w rest
    rule: ser_serElems_serMembers.induct)
  case (1 ind)
  then obtain k where "n = Suc k" by (cases n) auto
  with 1 parseValue_null [of w0 k rest] show ?case by (simp del: parseValue.simps)
next
  case (2 ind s)
  then obtain k where "n = Suc k" by (cases n) auto
  with 2 parseValue_string [of w0 k s rest] show ?case by (simp del: parseValue.simps)
next
  case (3 ind)
  then obtain k where "n = Suc k" by (cases n) auto
  with 3 parseValue_empty_array [of w0 k rest] show ?case by (simp del: parseValue.simps)
next
  case (4 ind v vs)
  let ?ind = "ind @ ''  ''"
  let ?w1 = "CHR 0x0A # ?ind"
  let ?w = "CHR 0x0A # ind"
  from "4.prems" obtain k where n: "n = Suc k" and k: "weightElems (v # vs) \<le> k"
    by (cases n) auto
  from "4.prems"(1) have ind: "\<forall>c\<in>set ?ind. c = CHR 0x20"
    and w1: "\<forall>c\<in>set ?w1. isWs c" and w: "\<forall>c\<in>set ?w. isWs c"
    by (auto simp: isWs_def)
  obtain c r where c: "ser ?ind v = c # r" "c \<in> {CHR ''n'', CHR 0x22, CHR ''['', CHR ''{''}"
    using ser_head by blast
  define x where "x = r @ (if vs = [] then [] else '','' @ [CHR 0x0A] @ ?ind @ serElems ?ind vs)
      @ ?w @ CHR '']'' # rest"
  have elems: "serElems ?ind (v # vs) @ ?w @ CHR '']'' # rest = c # x"
    by (simp add: c x_def)
  have "w0 @ ser ind (Arr (v # vs)) @ rest = w0 @ CHR ''['' # ?w1 @ serElems ?ind (v # vs)
      @ ?w @ CHR '']'' # rest"
    by simp
  also have "\<dots> = w0 @ CHR ''['' # ?w1 @ c # x" by (simp only: elems)
  finally have written: "w0 @ ser ind (Arr (v # vs)) @ rest = w0 @ CHR ''['' # ?w1 @ c # x" .
  have pv: "parseValue (Suc k) (w0 @ CHR ''['' # ?w1 @ c # x) =
      map_option (apfst Arr) (parseElems k (?w1 @ c # x))"
    using "4.prems"(2) w1 head_simps(1,2) [OF c(2)] by (rule parseValue_array)
  have "parseElems k (?w1 @ serElems ?ind (v # vs) @ ?w @ CHR '']'' # rest) = Some (v # vs, rest)"
    using ind w1 w _ k by (rule "4.IH") simp
  then have el: "parseElems k (?w1 @ c # x) = Some (v # vs, rest)" unfolding elems .
  show ?case unfolding n written pv el by simp
next
  case (5 ind)
  then obtain k where "n = Suc k" by (cases n) auto
  with 5 parseValue_empty_object [of w0 k rest] show ?case by (simp del: parseValue.simps)
next
  case (6 ind m ms)
  let ?ind = "ind @ ''  ''"
  let ?w1 = "CHR 0x0A # ?ind"
  let ?w = "CHR 0x0A # ind"
  from "6.prems" obtain k where n: "n = Suc k" and k: "weightMembers (m # ms) \<le> k"
    by (cases n) auto
  from "6.prems"(1) have ind: "\<forall>c\<in>set ?ind. c = CHR 0x20"
    and w1: "\<forall>c\<in>set ?w1. isWs c" and w: "\<forall>c\<in>set ?w. isWs c"
    by (auto simp: isWs_def)
  define x where "x = concat (map escape (fst m)) @ [CHR 0x22] @ '': '' @ ser ?ind (snd m)
      @ (if ms = [] then [] else '','' @ [CHR 0x0A] @ ?ind @ serMembers ?ind ms)
      @ ?w @ CHR ''}'' # rest"
  have membs: "serMembers ?ind (m # ms) @ ?w @ CHR ''}'' # rest = CHR 0x22 # x"
    by (simp add: quote_def x_def)
  have "w0 @ ser ind (Obj (m # ms)) @ rest = w0 @ CHR ''{'' # ?w1 @ serMembers ?ind (m # ms)
      @ ?w @ CHR ''}'' # rest"
    by simp
  also have "\<dots> = w0 @ CHR ''{'' # ?w1 @ CHR 0x22 # x" by (simp only: membs)
  finally have written: "w0 @ ser ind (Obj (m # ms)) @ rest = w0 @ CHR ''{'' # ?w1 @ CHR 0x22 # x" .
  have q: "\<not> isWs (CHR 0x22)" "CHR 0x22 \<noteq> CHR ''}''" by (simp_all add: isWs_def)
  have pv: "parseValue (Suc k) (w0 @ CHR ''{'' # ?w1 @ CHR 0x22 # x) =
      map_option (apfst Obj) (parseMembers k (?w1 @ CHR 0x22 # x))"
    using "6.prems"(2) w1 q by (rule parseValue_object)
  have "parseMembers k (?w1 @ serMembers ?ind (m # ms) @ ?w @ CHR ''}'' # rest) =
      Some (m # ms, rest)"
    using ind w1 w _ k by (rule "6.IH") simp
  then have el: "parseMembers k (?w1 @ CHR 0x22 # x) = Some (m # ms, rest)" unfolding membs .
  show ?case unfolding n written pv el by simp
next
  case (7 ind)
  then show ?case by simp
next
  case (8 ind v vs)
  from "8.prems" obtain k where n: "n = Suc k" and k: "weight v + weightElems vs \<le> k"
    by (cases n) auto
  show ?case
  proof (cases "vs = []")
    case True
    have "parseValue k (w0 @ ser ind v @ w @ CHR '']'' # rest) = Some (v, w @ CHR '']'' # rest)"
      using "8.prems"(1,2) k by (intro "8.IH"(1)) simp_all
    then have "parseElems (Suc k) (w0 @ ser ind v @ w @ CHR '']'' # rest) = Some ([v], rest)"
      using "8.prems"(3) by (rule parseElems_last)
    with True n show ?thesis by simp
  next
    case False
    let ?w1 = "CHR 0x0A # ind"
    let ?r = "?w1 @ serElems ind vs @ w @ CHR '']'' # rest"
    from "8.prems"(1) have w1: "\<forall>c\<in>set ?w1. isWs c" by (auto simp: isWs_def)
    have "parseValue k (w0 @ ser ind v @ CHR '','' # ?r) = Some (v, CHR '','' # ?r)"
      using "8.prems"(1,2) k by (intro "8.IH"(1)) simp_all
    then have "parseElems (Suc k) (w0 @ ser ind v @ CHR '','' # ?r) =
        map_option (apfst ((#) v)) (parseElems k ?r)"
      by (rule parseElems_more)
    also have "parseElems k ?r = Some (vs, rest)"
      using False "8.prems"(1) w1 "8.prems"(3) False k by (intro "8.IH"(2)) simp_all
    finally show ?thesis using False n by simp
  qed
next
  case (9 ind)
  then show ?case by simp
next
  case (10 ind m ms)
  from "10.prems" obtain k where n: "n = Suc k" and k: "weight (snd m) + weightMembers ms \<le> k"
    by (cases n) auto
  have sp: "\<forall>c\<in>set [CHR 0x20]. isWs c" by (simp add: isWs_def)
  show ?case
  proof (cases "ms = []")
    case True
    let ?x = "ser ind (snd m) @ w @ CHR ''}'' # rest"
    have "parseValue k ([CHR 0x20] @ ser ind (snd m) @ w @ CHR ''}'' # rest) =
        Some (snd m, w @ CHR ''}'' # rest)"
      using "10.prems"(1) sp k by (intro "10.IH"(1)) simp_all
    then have "parseValue k (CHR 0x20 # ?x) = Some (snd m, w @ CHR ''}'' # rest)" by simp
    with "10.prems"(2,3)
    have "parseMembers (Suc k) (w0 @ quote (fst m) @ '': '' @ ?x) = Some ([(fst m, snd m)], rest)"
      by (rule parseMembers_last)
    with True n show ?thesis by simp
  next
    case False
    let ?w1 = "CHR 0x0A # ind"
    let ?r = "?w1 @ serMembers ind ms @ w @ CHR ''}'' # rest"
    let ?x = "ser ind (snd m) @ CHR '','' # ?r"
    from "10.prems"(1) have w1: "\<forall>c\<in>set ?w1. isWs c" by (auto simp: isWs_def)
    have "parseValue k ([CHR 0x20] @ ser ind (snd m) @ CHR '','' # ?r) =
        Some (snd m, CHR '','' # ?r)"
      using "10.prems"(1) sp k by (intro "10.IH"(1)) simp_all
    then have "parseValue k (CHR 0x20 # ?x) = Some (snd m, CHR '','' # ?r)" by simp
    with "10.prems"(2)
    have "parseMembers (Suc k) (w0 @ quote (fst m) @ '': '' @ ?x) =
        map_option (apfst ((#) (fst m, snd m))) (parseMembers k ?r)"
      by (rule parseMembers_more)
    also have "parseMembers k ?r = Some (ms, rest)"
      using False "10.prems"(1) w1 "10.prems"(3) False k by (intro "10.IH"(2)) simp_all
    finally show ?thesis using False n by simp
  qed
qed

lemma weight_le_length:
  "weight v \<le> length (ser ind v)"
  "weightElems vs \<le> Suc (length (serElems ind vs))"
  "weightMembers ms \<le> Suc (length (serMembers ind ms))"
  by (induction ind v and ind vs and ind ms rule: ser_serElems_serMembers.induct)
    (auto simp: quote_def)

lemma parse_stringify: "parse (stringify v) = Some v"
proof -
  have "weight v \<le> Suc (length (ser [] v))"
    using weight_le_length(1) [of v "[]"] by simp
  then have "parseValue (Suc (length (ser [] v))) ([] @ ser [] v @ []) = Some (v, [])"
    by (intro parse_written(1)) simp_all
  then show ?thesis by (simp add: parse_def stringify_def skipWs_def del: parseValue.simps)
qed

subsection \<open>The database read back\<close>

lemma those_asString: "those (map (asString \<circ> Str) ss) = Some ss"
  by (induction ss) (simp_all add: asString_def)

lemma asCity_cityJson: "asCity (cityJson c) = Some c"
  by (cases "attractions c"; cases "restaurants c")
    (simp_all add: asCity_def cityJson_def property_def asItems_def those_asString)

lemma those_asCity: "those (map (asCity \<circ> cityJson) cs) = Some cs"
  by (induction cs) (simp_all add: asCity_cityJson)

lemma asEntry_entryJson: "asEntry (entryJson e) = Some e"
  by (cases e) (simp_all add: asEntry_def entryJson_def those_asCity)

lemma property_map:
  "property k (map (\<lambda>e. (fst e, f (snd e))) es) = map_option f (property k es)"
  by (induction es) (auto simp: property_def map_add_def split: option.splits)

lemma asData_dataJson: "asData (dataJson es) = Some (\<lambda>k. property k es)"
proof -
  have "list_all (\<lambda>m. asEntry (snd m) \<noteq> None) (map (\<lambda>e. (fst e, entryJson (snd e))) es)"
    by (simp add: list_all_iff asEntry_entryJson)
  moreover have "(case property k (map (\<lambda>e. (fst e, entryJson (snd e))) es) of
                    None \<Rightarrow> None | Some e \<Rightarrow> asEntry e) = property k es" for k
    by (cases "property k es") (simp_all add: property_map asEntry_entryJson)
  ultimately show ?thesis
    by (simp add: asData_def dataJson_def)
qed

lemma readDataText_writeDataText: "readDataText (writeDataText v old) = Some v"
  by (simp add: readDataText_def writeDataText_def parse_stringify)

lemma readDataText_missing:
  "Option.bind (readDataText None) asData = Some (readData None)"
  by (simp add: readDataText_def readData_def asData_def asEntry_def property_def fun_eq_iff)

lemma valueFile_readData:
  "map_option readData (valueFile file) = Option.bind (readDataText file) asData"
proof (cases "file")
  case None
  with readDataText_missing show ?thesis by (simp add: valueFile_def)
next
  case (Some t)
  then show ?thesis
    by (cases "Option.bind (parse t) asData")
      (simp_all add: valueFile_def readDataText_def readData_def)
qed

lemma getUserCitiesText_valueFile:
  assumes "valueFile file = Some f"
  shows "getUserCitiesText cfg file who = Some (getUserCities cfg f who)"
proof -
  from assms valueFile_readData [of "file"]
  have r: "Option.bind (readDataText file) asData = Some (readData f)" by simp
  then obtain v where v: "readDataText file = Some v" "asData v = Some (readData f)"
    by (cases "readDataText file") simp_all
  have "getUserCities cfg (Some (readData f)) who = getUserCities cfg f who"
    by (simp add: getUserCities_def readData_def)
  with v show ?thesis by (simp add: getUserCitiesText_def)
qed

lemma valueFile_written:
  "valueFile (writeDataText (dataJson es) old) = Some (writeData (\<lambda>k. property k es) f)"
  by (simp add: valueFile_def writeDataText_def writeData_def parse_stringify asData_dataJson)

text \<open>The escapes of \<^term>\<open>oddName\<close> as they are written.\<close>

lemma stringify_oddName:
  \<open>stringify (Str oddName) =
     ''"a'' @ [CHR 0x5C] @ ''"b'' @ [CHR 0x5C, CHR 0x5C, CHR 0x5C] @ ''n'' @ [CHR 0x5C]
       @ ''u001bc"''\<close>
  by (simp add: stringify_def oddName_def quote_def escape_def hexDigit_def)

lemma listCitiesText_valueFile:
  assumes "valueFile file = Some f"
  shows "listCitiesText cfg who file = Some (fst (listCities cfg who f), file)"
  using getUserCitiesText_valueFile [OF assms]
  by (simp add: listCitiesText_def listCities_def)

section \<open>A database written and read again\<close>

text \<open>
  Claim C9. Whatever JSON value \<open>writeData\<close> writes, over whatever the file held,
  \<open>readData\<close> reads that value back from the text: \<^verbatim>\<open>JSON.parse\<close> undoes
  \<^verbatim>\<open>JSON.stringify(data, null, 2)\<close>. So for every city database, given by its
  entries, the listing after the database was written and the file read again is the
  listing of that database, for every session user and for a guest and under any
  limits; the text written stands for the data file of the handlers that holds the
  database. And a value that was read from a file, written out and read again is listed
  as from the first file.
\<close>

theorem write_read_roundtrip:
  "readDataText (writeDataText v old) = Some v
   \<and> listCitiesText cfg who (writeDataText (dataJson es) old) =
       Some (fst (listCities cfg who (writeData (\<lambda>k. property k es) f)),
             writeDataText (dataJson es) old)
   \<and> valueFile (writeDataText (dataJson es) old) = Some (writeData (\<lambda>k. property k es) f)
   \<and> (readDataText first = Some v \<longrightarrow>
        readDataText (writeDataText v old) = readDataText first
        \<and> map_option fst (listCitiesText cfg who (writeDataText v old)) =
            map_option fst (listCitiesText cfg who first))"
proof -
  have rd: "readDataText (writeDataText v old) = Some v"
    by (rule readDataText_writeDataText)
  have vf: "valueFile (writeDataText (dataJson es) old) =
      Some (writeData (\<lambda>k. property k es) f)"
    by (rule valueFile_written)
  have "map_option fst (listCitiesText cfg who (writeDataText v old)) =
      map_option fst (listCitiesText cfg who first)"
    if "readDataText first = Some v"
    using that rd by (simp add: listCitiesText_def getUserCitiesText_def option.map_comp comp_def)
  with rd vf listCitiesText_valueFile [OF vf] show ?thesis by simp
qed

text \<open>Carol's database: written over any file it gives the text above, which is read
  back as the same value, is listed for carol as Rome and stands for
  \<^term>\<open>carolFile\<close>. The one-line text of the same database is read as a different
  value, with carol twice and the properties of Rome in another order; written out and
  read again, that value too is listed as Rome.\<close>

theorem write_read_roundtrip_witness:
  "writeDataText carolJson (Some carolCompact) = Some carolText
   \<and> readDataText (Some carolText) = Some carolJson
   \<and> listCitiesText defaults (Some ''carol'') (Some carolText) = Some (Inr [rome], Some carolText)
   \<and> valueFile (Some carolText) = Some carolFile
   \<and> readDataText (Some carolCompact) = Some carolCompactJson
   \<and> readDataText (writeDataText carolCompactJson (Some carolCompact)) = Some carolCompactJson
   \<and> map_option fst
        (listCitiesText defaults (Some ''carol'')
           (writeDataText carolCompactJson (Some carolCompact))) = Some (Inr [rome])
   \<and> map_option fst (listCitiesText defaults (Some ''carol'') (Some carolCompact)) =
       Some (Inr [rome])"
proof -
  let ?es = "[(''carol'', JCities [rome]), (''latest'', JCities [paris])]"
  note carol = write_read_roundtrip
    [of carolJson "Some carolCompact" defaults "Some ''carol''" ?es None "Some carolText"]
  note compact = write_read_roundtrip
    [of carolCompactJson "Some carolCompact" defaults "Some ''carol''" ?es None
      "Some carolCompact"]
  have w: "writeDataText carolJson (Some carolCompact) = Some carolText"
    by (simp add: writeDataText_def carolJson_def carolText_def dataJson_def entryJson_def
        cityJson_def rome_def paris_def emptyCity_def stringify_def quote_def escape_def)
  have w': "writeDataText (dataJson ?es) (Some carolCompact) = Some carolText"
    using w by (simp add: carolJson_def)
  have db: "writeData (\<lambda>k. property k ?es) None = carolFile"
    by (simp add: writeData_def carolFile_def property_def fun_eq_iff)
  have ls: "fst (listCities defaults (Some ''carol'') carolFile) = Inr [rome]"
    by (simp add: listCities_def getUserCities_def userEntry_def readData_def entry_def
        carolFile_def rome_def lastItems_defaults slice_last defaults_limits orEmpty_def)
  have rc: "readDataText (Some carolCompact) = Some carolCompactJson"
    by code_simp
  from carol [THEN conjunct1] w have 1: "readDataText (Some carolText) = Some carolJson"
    by simp
  from carol [THEN conjunct2, THEN conjunct1] w' db ls
  have 2: "listCitiesText defaults (Some ''carol'') (Some carolText) =
      Some (Inr [rome], Some carolText)"
    by simp
  from carol [THEN conjunct2, THEN conjunct2, THEN conjunct1] w' db
  have 3: "valueFile (Some carolText) = Some carolFile"
    by simp
  from compact [THEN conjunct1]
  have 4: "readDataText (writeDataText carolCompactJson (Some carolCompact)) =
      Some carolCompactJson" .
  from compact [THEN conjunct2, THEN conjunct2, THEN conjunct2, THEN mp, OF rc]
  have 5: "map_option fst
        (listCitiesText defaults (Some ''carol'')
           (writeDataText carolCompactJson (Some carolCompact))) =
      map_option fst (listCitiesText defaults (Some ''carol'') (Some carolCompact))"
    by (rule conjunct2)
  have 6: "map_option fst (listCitiesText defaults (Some ''carol'') (Some carolCompact)) =
      Some (Inr [rome])"
    by code_simp
  from w 1 2 3 rc 4 5 6 show ?thesis by simp
qed

end
